theory Spec2Isabelle
  imports Complex_Main
begin

section \<open>Python values and exceptions\<close>

text \<open>
  Exceptions of the Python source are values: every \<open>raise\<close> and every failing
  \<open>assert\<close> is an \<open>Inl\<close> result carrying the exception class and its message.
\<close>

datatype error =
    ValueError string
  | AssertionError string
  | KeyError string
  | IndexError
  | TypeError
  | ZeroDivisionError
  | ReadError string
  | DuplicateIdentifier string
  | ReferentialIntegrityError string

text \<open>\<open>s.startswith(p)\<close> and \<open>sub in s\<close> on Python strings.\<close>

definition startswith :: "string \<Rightarrow> string \<Rightarrow> bool" where
  "startswith s p = (take (length p) s = p)"

fun contains :: "string \<Rightarrow> string \<Rightarrow> bool" where
  "contains [] sub = (sub = [])"
| "contains (c # cs) sub = (startswith (c # cs) sub \<or> contains cs sub)"

text \<open>\<open>str(n)\<close> of a non-negative integer, as the f-strings of the parser format an index.\<close>

definition digit_char :: "nat \<Rightarrow> char" where
  "digit_char d = char_of (48 + d)"

function string_of_nat :: "nat \<Rightarrow> string" where
  "string_of_nat n =
     (if n < 10 then [digit_char n]
      else string_of_nat (n div 10) @ [digit_char (n mod 10)])"
  by pat_completeness auto
termination
  by (relation "measure id") auto

declare string_of_nat.simps [simp del]

text \<open>The slice \<open>xs[:n]\<close> for an integer \<open>n\<close>: a negative bound counts from the end.\<close>

definition slice_to :: "int \<Rightarrow> 'a list \<Rightarrow> 'a list" where
  "slice_to n xs = (if 0 \<le> n then take (nat n) xs else take (length xs - nat (- n)) xs)"

text \<open>
  A numpy scalar as the parser reads it from a column: a finite real, an infinity, NaN,
  or a value with a non-zero imaginary part (the only values \<open>np.isreal\<close> rejects).
  Finite values are idealised as reals.
\<close>

datatype npfloat = Fin real | PInf | NInf | NaN | NonReal

fun isnan :: "npfloat \<Rightarrow> bool" where
  "isnan NaN = True"
| "isnan _ = False"

fun isinf :: "npfloat \<Rightarrow> bool" where
  "isinf PInf = True"
| "isinf NInf = True"
| "isinf _ = False"

fun isreal :: "npfloat \<Rightarrow> bool" where
  "isreal NonReal = False"
| "isreal _ = True"

text \<open>\<open>dist < c\<close> and \<open>dist > c\<close> against a finite constant; comparisons with NaN are false.\<close>

fun np_less :: "npfloat \<Rightarrow> real \<Rightarrow> bool" where
  "np_less (Fin r) c = (r < c)"
| "np_less NInf c = True"
| "np_less _ c = False"

fun np_greater :: "npfloat \<Rightarrow> real \<Rightarrow> bool" where
  "np_greater (Fin r) c = (r > c)"
| "np_greater PInf c = True"
| "np_greater _ c = False"


section \<open>Measurement entities (measurements.py)\<close>

subsection \<open>PoseMeasurement\<close>

text \<open>
  The fields \<open>x\<close>, \<open>y\<close> and \<open>theta\<close> of the class are \<open>delta_x\<close>, \<open>delta_y\<close> and
  \<open>delta_theta\<close> here (the measured change in each coordinate), since a record field
  is a constant of the theory.
\<close>

record PoseMeasurement =
  base_pose :: string
  to_pose :: string
  delta_x :: real
  delta_y :: real
  delta_theta :: real
  translation_weight :: real
  rotation_weight :: real

text \<open>
  The class is declared with \<open>attr.s(frozen=True)\<close> and every field with a bare
  \<open>attr.ib()\<close>: the generated constructor stores its arguments and runs no validator.
\<close>

definition PoseMeasurement_init ::
  "string \<Rightarrow> string \<Rightarrow> real \<Rightarrow> real \<Rightarrow> real \<Rightarrow> real \<Rightarrow> real \<Rightarrow> error + PoseMeasurement" where
  "PoseMeasurement_init b t px py th tw rw =
     Inr \<lparr>base_pose = b, to_pose = t, delta_x = px, delta_y = py, delta_theta = th,
          translation_weight = tw, rotation_weight = rw\<rparr>"

text \<open>Python's \<open>1 / w\<close>: division by zero raises.\<close>

definition py_recip :: "real \<Rightarrow> error + real" where
  "py_recip w = (if w = 0 then Inl ZeroDivisionError else Inr (1 / w))"

definition covariance :: "PoseMeasurement \<Rightarrow> error + real list list" where
  "covariance m =
     (case py_recip (translation_weight m) of Inl e \<Rightarrow> Inl e | Inr a \<Rightarrow>
      case py_recip (translation_weight m) of Inl e \<Rightarrow> Inl e | Inr b \<Rightarrow>
      case py_recip (rotation_weight m) of Inl e \<Rightarrow> Inl e | Inr c \<Rightarrow>
        Inr [[a, 0, 0], [0, b, 0], [0, 0, c]])"


subsection \<open>FGRangeMeasurement\<close>

record FGRangeMeasurement =
  association :: "string list"
  dist :: npfloat
  stddev :: real

definition msg_two_variables :: string where
  "msg_two_variables = ''Range measurements must have exactly two variables associated with.''"

definition msg_unique :: string where
  "msg_unique = ''Range measurements must have unique variables.''"

definition msg_first_pose :: string where
  "msg_first_pose = ''First association must be a pose - cannot start with L''"

definition msg_second_landmark :: string where
  "msg_second_landmark = ''Second association must be a Landmark - must start with L''"

text \<open>
  The validator of \<open>association\<close>. The four tests run in the source's order; after the
  length test the tuple has exactly two elements, so \<open>value[0]\<close> and \<open>value[1]\<close> exist.
\<close>

fun check_association :: "string list \<Rightarrow> error + unit" where
  "check_association [v0, v1] =
     (if v0 = v1 then Inl (ValueError msg_unique)
      else if startswith v0 ''L'' then Inl (ValueError msg_first_pose)
      else if \<not> startswith v1 ''L'' then Inl (ValueError msg_second_landmark)
      else Inr ())"
| "check_association _ = Inl (ValueError msg_two_variables)"

definition FGRangeMeasurement_init ::
  "string list \<Rightarrow> npfloat \<Rightarrow> real \<Rightarrow> error + FGRangeMeasurement" where
  "FGRangeMeasurement_init a d s =
     (case check_association a of
        Inl e \<Rightarrow> Inl e
      | Inr _ \<Rightarrow> Inr \<lparr>association = a, dist = d, stddev = s\<rparr>)"

text \<open>The accessor \<open>weight\<close>: \<open>1 / (self.stddev ** 2)\<close>.\<close>

definition weight :: "FGRangeMeasurement \<Rightarrow> error + real" where
  "weight m = py_recip ((stddev m)\<^sup>2)"

definition pose_key :: "FGRangeMeasurement \<Rightarrow> string" where
  "pose_key m = association m ! 0"

definition landmark_key :: "FGRangeMeasurement \<Rightarrow> string" where
  "landmark_key m = association m ! 1"


subsection \<open>AmbiguousFGRangeMeasurement\<close>

record AmbiguousFGRangeMeasurement =
  true_association :: "string list"
  measured_association :: "string list"
  amb_dist :: npfloat
  amb_stddev :: real

text \<open>\<open>len(value) != len(set(value))\<close>: the tuple holds a duplicate.\<close>

definition check_true_association :: "string list \<Rightarrow> error + unit" where
  "check_true_association v =
     (if length v \<noteq> 2 then Inl (ValueError msg_two_variables)
      else if length v \<noteq> length (remdups v) then Inl (ValueError msg_unique)
      else Inr ())"

definition check_measured_association :: "string list \<Rightarrow> error + unit" where
  "check_measured_association v =
     (if length v \<noteq> 2 then Inl (ValueError msg_two_variables)
      else if length v \<noteq> length (remdups v) then Inl (ValueError msg_unique)
      else Inr ())"

text \<open>Validators run in the order the attributes are declared.\<close>

definition AmbiguousFGRangeMeasurement_init ::
  "string list \<Rightarrow> string list \<Rightarrow> npfloat \<Rightarrow> real \<Rightarrow> error + AmbiguousFGRangeMeasurement" where
  "AmbiguousFGRangeMeasurement_init ta ma d s =
     (case check_true_association ta of
        Inl e \<Rightarrow> Inl e
      | Inr _ \<Rightarrow>
          (case check_measured_association ma of
             Inl e \<Rightarrow> Inl e
           | Inr _ \<Rightarrow>
               Inr \<lparr>true_association = ta, measured_association = ma,
                    amb_dist = d, amb_stddev = s\<rparr>))"

definition amb_weight :: "AmbiguousFGRangeMeasurement \<Rightarrow> error + real" where
  "amb_weight m = py_recip ((amb_stddev m)\<^sup>2)"


section \<open>Variable entities and the factor graph aggregate\<close>

text \<open>
  Modelled from the spec: \<open>py_factor_graph/variables.py\<close> is not among the sources.
  A Pose Variable holds an identifier, a ground-truth position and a ground-truth
  orientation; a Landmark Variable an identifier and a ground-truth position. Both are
  immutable value objects for which the spec names no rejection.
\<close>

record PoseVariable2D =
  pose_var_name :: string
  pose_true_position :: "npfloat list"
  pose_true_theta :: npfloat

record LandmarkVariable2D =
  landmark_var_name :: string
  landmark_true_position :: "npfloat list"

definition PoseVariable2D_init :: "string \<Rightarrow> npfloat list \<Rightarrow> npfloat \<Rightarrow> PoseVariable2D" where
  "PoseVariable2D_init n pos th =
     \<lparr>pose_var_name = n, pose_true_position = pos, pose_true_theta = th\<rparr>"

definition LandmarkVariable2D_init :: "string \<Rightarrow> npfloat list \<Rightarrow> LandmarkVariable2D" where
  "LandmarkVariable2D_init n pos = \<lparr>landmark_var_name = n, landmark_true_position = pos\<rparr>"

text \<open>
  Modelled from the spec: the class \<open>PoseMeasurement2D\<close> the parser imports is not in
  \<open>measurements.py\<close> as given. A Pose Measurement is a relative-pose factor between
  \<open>base_pose\<close> and \<open>to_pose\<close> with a translation, a rotation and two precisions, which the
  spec requires to be strictly positive at construction.
\<close>

record PoseMeasurement2D =
  pm_base_pose :: string
  pm_to_pose :: string
  pm_x :: npfloat
  pm_y :: npfloat
  pm_theta :: npfloat
  pm_translation_precision :: real
  pm_rotation_precision :: real

definition PoseMeasurement2D_init ::
  "string \<Rightarrow> string \<Rightarrow> npfloat \<Rightarrow> npfloat \<Rightarrow> npfloat \<Rightarrow> real \<Rightarrow> real \<Rightarrow> error + PoseMeasurement2D" where
  "PoseMeasurement2D_init b t px py th tp rp =
     (if tp \<le> 0 then Inl (ValueError ''translation precision must be positive'')
      else if rp \<le> 0 then Inl (ValueError ''rotation precision must be positive'')
      else Inr \<lparr>pm_base_pose = b, pm_to_pose = t, pm_x = px, pm_y = py, pm_theta = th,
                pm_translation_precision = tp, pm_rotation_precision = rp\<rparr>)"

text \<open>
  Modelled from the spec: \<open>py_factor_graph/factor_graph.py\<close> is not among the sources.
  The aggregate owns the pose variables of the one trajectory the parser fills, the
  landmark variables (unique by identifier) and the two measurement collections. The
  variable operations reject a duplicate identifier. The spec lets the measurement
  operations either validate the referenced identifiers at addition or leave it to a
  later stage: \<open>strict\<close> selects validation at addition.
\<close>

record FactorGraphData =
  dimension :: int
  pose_variables :: "PoseVariable2D list"
  landmark_variables :: "LandmarkVariable2D list"
  odom_measurements :: "PoseMeasurement2D list"
  range_measurements :: "FGRangeMeasurement list"

definition FactorGraphData_init :: "int \<Rightarrow> FactorGraphData" where
  "FactorGraphData_init d =
     \<lparr>dimension = d, pose_variables = [], landmark_variables = [],
      odom_measurements = [], range_measurements = []\<rparr>"

definition pose_exists :: "FactorGraphData \<Rightarrow> string \<Rightarrow> bool" where
  "pose_exists g n = (n \<in> set (map pose_var_name (pose_variables g)))"

definition landmark_exists :: "FactorGraphData \<Rightarrow> string \<Rightarrow> bool" where
  "landmark_exists g n = (n \<in> set (map landmark_var_name (landmark_variables g)))"

definition add_pose_variable :: "FactorGraphData \<Rightarrow> PoseVariable2D \<Rightarrow> error + FactorGraphData" where
  "add_pose_variable g v =
     (if pose_exists g (pose_var_name v) then Inl (DuplicateIdentifier (pose_var_name v))
      else Inr (g\<lparr>pose_variables := pose_variables g @ [v]\<rparr>))"

definition add_landmark_variable ::
  "FactorGraphData \<Rightarrow> LandmarkVariable2D \<Rightarrow> error + FactorGraphData" where
  "add_landmark_variable g v =
     (if landmark_exists g (landmark_var_name v) then Inl (DuplicateIdentifier (landmark_var_name v))
      else Inr (g\<lparr>landmark_variables := landmark_variables g @ [v]\<rparr>))"

definition add_odom_measurement ::
  "bool \<Rightarrow> FactorGraphData \<Rightarrow> PoseMeasurement2D \<Rightarrow> error + FactorGraphData" where
  "add_odom_measurement strict g m =
     (if strict \<and> \<not> pose_exists g (pm_base_pose m) then
        Inl (ReferentialIntegrityError (pm_base_pose m))
      else if strict \<and> \<not> pose_exists g (pm_to_pose m) then
        Inl (ReferentialIntegrityError (pm_to_pose m))
      else Inr (g\<lparr>odom_measurements := odom_measurements g @ [m]\<rparr>))"

definition add_range_measurement ::
  "bool \<Rightarrow> FactorGraphData \<Rightarrow> FGRangeMeasurement \<Rightarrow> error + FactorGraphData" where
  "add_range_measurement strict g m =
     (if strict \<and> \<not> pose_exists g (pose_key m) then
        Inl (ReferentialIntegrityError (pose_key m))
      else if strict \<and> \<not> landmark_exists g (landmark_key m) then
        Inl (ReferentialIntegrityError (landmark_key m))
      else Inr (g\<lparr>range_measurements := range_measurements g @ [m]\<rparr>))"



section \<open>The ingestion pipeline (parsing/parse_goats_data.py)\<close>

subsection \<open>Tables\<close>

text \<open>
  What \<open>pd.read_csv\<close> returns for the sensor file: named columns of one common length.
  \<open>df[name]\<close> raises KeyError for an unknown name; \<open>df[names].to_numpy()\<close> is the
  array of rows over the selected columns.
\<close>

record dataframe =
  nrows :: nat
  cols :: "(string \<times> npfloat list) list"

definition wf_dataframe :: "dataframe \<Rightarrow> bool" where
  "wf_dataframe df =
     (distinct (map fst (cols df)) \<and> list_all (\<lambda>c. length (snd c) = nrows df) (cols df))"

definition df_columns :: "dataframe \<Rightarrow> string list" where
  "df_columns df = map fst (cols df)"

definition df_col :: "dataframe \<Rightarrow> string \<Rightarrow> error + npfloat list" where
  "df_col df name =
     (case map_of (cols df) name of None \<Rightarrow> Inl (KeyError name) | Some c \<Rightarrow> Inr c)"

fun df_cols :: "dataframe \<Rightarrow> string list \<Rightarrow> error + npfloat list list" where
  "df_cols df [] = Inr []"
| "df_cols df (n # ns) =
     (case df_col df n of Inl e \<Rightarrow> Inl e | Inr c \<Rightarrow>
      case df_cols df ns of Inl e \<Rightarrow> Inl e | Inr cs \<Rightarrow> Inr (c # cs))"

definition df_rows :: "dataframe \<Rightarrow> string list \<Rightarrow> error + npfloat list list" where
  "df_rows df names =
     (case df_cols df names of Inl e \<Rightarrow> Inl e
      | Inr cs \<Rightarrow> Inr (map (\<lambda>i. map (\<lambda>c. c ! i) cs) [0..<nrows df]))"

text \<open>\<open>xs[i]\<close> for an index \<open>i \<ge> 0\<close>.\<close>

definition np_index :: "'a list \<Rightarrow> nat \<Rightarrow> error + 'a" where
  "np_index xs i = (if i < length xs then Inr (xs ! i) else Inl IndexError)"

text \<open>A path as the validator observes it.\<close>

record path =
  path_str :: string
  path_exists :: bool
  path_is_file :: bool
  path_suffix :: string

definition verify_path_is_goats_csv :: "path \<Rightarrow> error + unit" where
  "verify_path_is_goats_csv p =
     (if \<not> path_exists p then Inl (ValueError (path_str p @ '' does not exist''))
      else if \<not> path_is_file p then Inl (ValueError (path_str p @ '' is not a file''))
      else if \<not> path_suffix p = ''.csv'' then Inl (ValueError (path_str p @ '' is not a .csv file''))
      else Inr ())"


subsection \<open>The geometry kernel\<close>

text \<open>
  \<open>py_factor_graph/utils/matrix_utils.py\<close> is not among the sources. The parser is
  modelled over any kernel: \<open>'t\<close> is the type of transformation matrices and \<open>'r\<close> the
  type of rotation matrices. The spec describes the kernel's functions as pure and total.
\<close>

record ('t, 'r) kernel =
  make_transformation_matrix_from_theta :: "npfloat \<Rightarrow> npfloat list \<Rightarrow> 't"
  get_relative_rot_and_trans_between_poses :: "'t \<Rightarrow> 't \<Rightarrow> 'r \<times> npfloat list"
  get_theta_from_rotation_matrix :: "'r \<Rightarrow> npfloat"

text \<open>
  Modelled from the spec: \<open>precision_from_covariance\<close> is the elementwise reciprocal and
  fails on a zero covariance.
\<close>

definition get_measurement_precisions_from_covariances :: "real \<Rightarrow> real \<Rightarrow> error + real \<times> real" where
  "get_measurement_precisions_from_covariances trans_cov rot_cov =
     (case py_recip trans_cov of Inl e \<Rightarrow> Inl e | Inr tp \<Rightarrow>
      case py_recip rot_cov of Inl e \<Rightarrow> Inl e | Inr rp \<Rightarrow> Inr (tp, rp))"


subsection \<open>GoatsParser: configuration and accessors\<close>

record GoatsParser =
  data_file_path :: path
  beacon_loc_file_path :: path
  dim :: int
  filter_ranges :: bool
  data :: dataframe
  beacon_locs :: "npfloat list list"

definition COLUMN_NAMES :: "(string \<times> string) list" where
  "COLUMN_NAMES =
     [(''x_pos'', ''insXYZ_1''), (''y_pos'', ''insXYZ_2''), (''z_pos'', ''insXYZ_3''),
      (''x_pos_gt'', ''iNav_GT_1''), (''y_pos_gt'', ''iNav_GT_2''), (''z_pos_gt'', ''iNav_GT_3''),
      (''roll'', ''insRPY_1''), (''pitch'', ''insRPY_2''), (''yaw'', ''insRPY_3''),
      (''x_vel'', ''insVel_1''), (''y_vel'', ''insVel_2''), (''z_vel'', ''insVel_3''),
      (''range_beacon_1'', ''ranges_1''), (''range_beacon_2'', ''ranges_2''),
      (''range_beacon_3'', ''ranges_3''), (''range_beacon_4'', ''ranges_4''),
      (''range_filtered_1'', ''filtered_ranges_1''), (''range_filtered_2'', ''filtered_ranges_2''),
      (''range_filtered_3'', ''filtered_ranges_3''), (''range_filtered_4'', ''filtered_ranges_4'')]"

definition column_name :: "string \<Rightarrow> error + string" where
  "column_name k =
     (case map_of COLUMN_NAMES k of None \<Rightarrow> Inl (KeyError k) | Some c \<Rightarrow> Inr c)"

definition get_unfiltered_range :: "GoatsParser \<Rightarrow> nat \<Rightarrow> error + npfloat list" where
  "get_unfiltered_range p beacon_num =
     (case column_name (''range_beacon_'' @ string_of_nat (beacon_num + 1)) of
        Inl e \<Rightarrow> Inl e
      | Inr c \<Rightarrow> df_col (data p) c)"

definition get_filtered_range :: "GoatsParser \<Rightarrow> nat \<Rightarrow> error + npfloat list" where
  "get_filtered_range p beacon_num =
     (case column_name (''range_filtered_'' @ string_of_nat (beacon_num + 1)) of
        Inl e \<Rightarrow> Inl e
      | Inr c \<Rightarrow> df_col (data p) c)"

definition get_ranges :: "GoatsParser \<Rightarrow> nat \<Rightarrow> error + npfloat list" where
  "get_ranges p beacon_num =
     (if filter_ranges p then get_filtered_range p beacon_num
      else get_unfiltered_range p beacon_num)"

definition num_beacons :: "GoatsParser \<Rightarrow> nat" where
  "num_beacons p = length (beacon_locs p)"

text \<open>
  \<open>positions\<close> and \<open>gt_positions\<close>: the three mapped column names, cut to the first
  \<open>dim\<close>, selected from the table as rows.
\<close>

definition positions :: "GoatsParser \<Rightarrow> error + npfloat list list" where
  "positions p = df_rows (data p) (slice_to (dim p) [''insXYZ_1'', ''insXYZ_2'', ''insXYZ_3''])"

definition gt_positions :: "GoatsParser \<Rightarrow> error + npfloat list list" where
  "gt_positions p = df_rows (data p) (slice_to (dim p) [''iNav_GT_1'', ''iNav_GT_2'', ''iNav_GT_3''])"

text \<open>
  \<open>rotations\<close>: the yaw column when \<open>dim\<close> is 2. For \<open>dim = 3\<close> the source indexes the
  table with a tuple of three names, which is looked up as one column label and is
  not found; any other \<open>dim\<close> raises ValueError.
\<close>

definition rotations :: "GoatsParser \<Rightarrow> error + npfloat list" where
  "rotations p =
     (if dim p = 2 then df_col (data p) ''insRPY_3''
      else if dim p = 3 then Inl (KeyError ''(insRPY_1, insRPY_2, insRPY_3)'')
      else Inl (ValueError ''dim must be 2 or 3''))"

definition gt_rotations :: "GoatsParser \<Rightarrow> error + npfloat list" where
  "gt_rotations p = rotations p"


subsection \<open>GoatsParser: filling the factor graph\<close>

text \<open>The identifiers \<open>f"L{idx}"\<close> and \<open>f"A{idx}"\<close>.\<close>

definition landmark_id :: "nat \<Rightarrow> string" where
  "landmark_id idx = ''L'' @ string_of_nat idx"

definition pose_id :: "nat \<Rightarrow> string" where
  "pose_id idx = ''A'' @ string_of_nat idx"

text \<open>
  \<open>_add_beacon_variables\<close>: the loop over \<open>enumerate(self._beacon_locs)\<close>, the graph
  threaded through it.
\<close>

fun add_beacon_variables_loop ::
  "GoatsParser \<Rightarrow> (nat \<times> npfloat list) list \<Rightarrow> FactorGraphData \<Rightarrow> error + FactorGraphData" where
  "add_beacon_variables_loop p [] g = Inr g"
| "add_beacon_variables_loop p ((idx, beacon_loc) # rest) g =
     (case get_ranges p idx of
        Inl e \<Rightarrow> Inl e
      | Inr ranges \<Rightarrow>
          (let num_non_nan = length (filter (\<lambda>r. \<not> isnan r) ranges) in
           if int num_non_nan < dim p then add_beacon_variables_loop p rest g
           else
             (let var_name = landmark_id idx;
                  var = LandmarkVariable2D_init var_name beacon_loc
              in case add_landmark_variable g var of
                   Inl e \<Rightarrow> Inl e
                 | Inr g' \<Rightarrow> add_beacon_variables_loop p rest g')))"

definition add_beacon_variables :: "GoatsParser \<Rightarrow> FactorGraphData \<Rightarrow> error + FactorGraphData" where
  "add_beacon_variables p g = add_beacon_variables_loop p (enumerate 0 (beacon_locs p)) g"

text \<open>
  \<open>_row_has_range_measures\<close>: the generator yields the range channel of every beacon
  index below \<open>num_beacons\<close>, each read at \<open>row\<close> as it is produced.
\<close>

fun range_data_at_row :: "GoatsParser \<Rightarrow> nat \<Rightarrow> nat list \<Rightarrow> error + npfloat list" where
  "range_data_at_row p row [] = Inr []"
| "range_data_at_row p row (idx # idxs) =
     (case get_ranges p idx of Inl e \<Rightarrow> Inl e | Inr x \<Rightarrow>
      case np_index x row of Inl e \<Rightarrow> Inl e | Inr v \<Rightarrow>
      case range_data_at_row p row idxs of Inl e \<Rightarrow> Inl e | Inr vs \<Rightarrow> Inr (v # vs))"

definition row_has_range_measures :: "GoatsParser \<Rightarrow> nat \<Rightarrow> error + bool" where
  "row_has_range_measures p row =
     (case range_data_at_row p row [0..<num_beacons p] of
        Inl e \<Rightarrow> Inl e
      | Inr vs \<Rightarrow> Inr (list_ex (\<lambda>v. \<not> isnan v) vs))"

text \<open>\<open>_add_pose_variables\<close>: the loop over \<open>enumerate(zip(gt_positions, gt_rotations))\<close>.\<close>

fun add_pose_variables_loop ::
  "GoatsParser \<Rightarrow> (nat \<times> npfloat list \<times> npfloat) list \<Rightarrow> FactorGraphData \<Rightarrow> error + FactorGraphData" where
  "add_pose_variables_loop p [] g = Inr g"
| "add_pose_variables_loop p ((idx, position, rot) # rest) g =
     (case row_has_range_measures p idx of
        Inl e \<Rightarrow> Inl e
      | Inr has \<Rightarrow>
          if \<not> has \<and> idx \<noteq> 0 then add_pose_variables_loop p rest g
          else
            (let var_name = pose_id idx;
                 var = PoseVariable2D_init var_name position rot
             in case add_pose_variable g var of
                  Inl e \<Rightarrow> Inl e
                | Inr g' \<Rightarrow> add_pose_variables_loop p rest g'))"

definition add_pose_variables :: "GoatsParser \<Rightarrow> FactorGraphData \<Rightarrow> error + FactorGraphData" where
  "add_pose_variables p g =
     (case gt_positions p of Inl e \<Rightarrow> Inl e | Inr ps \<Rightarrow>
      case gt_rotations p of Inl e \<Rightarrow> Inl e | Inr rs \<Rightarrow>
        add_pose_variables_loop p (enumerate 0 (zip ps rs)) g)"

text \<open>
  \<open>_get_transformation_matrix\<close>. With \<open>dim = 3\<close> the source takes \<open>len(rot)\<close> of what
  is a scalar here.
\<close>

definition get_transformation_matrix ::
  "('t, 'r) kernel \<Rightarrow> GoatsParser \<Rightarrow> npfloat \<Rightarrow> npfloat list \<Rightarrow> error + 't" where
  "get_transformation_matrix K p rot translation =
     (if dim p = 2 then
        (if \<not> isreal rot then Inl (AssertionError ''Rot must be a number'')
         else if length translation \<noteq> 2 then
           Inl (AssertionError ''Translation is wrong dimension; should be 2'')
         else Inr (make_transformation_matrix_from_theta K rot translation))
      else if dim p = 3 then Inl TypeError
      else Inl (ValueError []))"

text \<open>
  The body of the odometry loop from \<open>get_relative_rot_and_trans_between_poses\<close> to the
  construction of the measurement; \<open>x, y = relative_trans\<close> needs exactly two values.
\<close>

definition relative_pose_measurement ::
  "('t, 'r) kernel \<Rightarrow> 't \<Rightarrow> 't \<Rightarrow> string \<Rightarrow> string \<Rightarrow> error + PoseMeasurement2D" where
  "relative_pose_measurement K prev_pose curr_pose base_pose_name to_pose_name =
     (case get_relative_rot_and_trans_between_poses K prev_pose curr_pose of
        (relative_rot, relative_trans) \<Rightarrow>
          (case relative_trans of
             [rx, ry] \<Rightarrow>
               (let th = get_theta_from_rotation_matrix K relative_rot;
                    trans_cov = (0.02 :: real)\<^sup>2;
                    rot_cov = (0.002 :: real)\<^sup>2
                in case get_measurement_precisions_from_covariances trans_cov rot_cov of
                     Inl e \<Rightarrow> Inl e
                   | Inr (trans_precision, rot_precision) \<Rightarrow>
                       PoseMeasurement2D_init base_pose_name to_pose_name rx ry th
                         trans_precision rot_precision)
           | _ \<Rightarrow> Inl (ValueError ''cannot unpack relative_trans into x, y'')))"

text \<open>
  \<open>_add_odometry_measurements\<close>: the loop carries \<open>prev_pose\<close> and \<open>base_pose_name\<close>;
  \<open>curr_pose\<close> is recomputed in every row that is not skipped.
\<close>

fun add_odometry_measurements_loop ::
  "('t, 'r) kernel \<Rightarrow> bool \<Rightarrow> GoatsParser \<Rightarrow> (nat \<times> npfloat list \<times> npfloat) list \<Rightarrow>
     't \<Rightarrow> string \<Rightarrow> FactorGraphData \<Rightarrow> error + FactorGraphData" where
  "add_odometry_measurements_loop K strict p [] prev_pose base_pose_name g = Inr g"
| "add_odometry_measurements_loop K strict p ((idx, position, rot) # rest) prev_pose base_pose_name g =
     (case row_has_range_measures p idx of
        Inl e \<Rightarrow> Inl e
      | Inr has \<Rightarrow>
          if \<not> has then add_odometry_measurements_loop K strict p rest prev_pose base_pose_name g
          else
            (case get_transformation_matrix K p rot position of
               Inl e \<Rightarrow> Inl e
             | Inr curr_pose \<Rightarrow>
                 if idx = 0 then
                   add_odometry_measurements_loop K strict p rest prev_pose base_pose_name g
                 else
                   (let to_pose_name = pose_id idx in
                    case relative_pose_measurement K prev_pose curr_pose base_pose_name to_pose_name of
                      Inl e \<Rightarrow> Inl e
                    | Inr m \<Rightarrow>
                        (case add_odom_measurement strict g m of
                           Inl e \<Rightarrow> Inl e
                         | Inr g' \<Rightarrow>
                             add_odometry_measurements_loop K strict p rest curr_pose to_pose_name g'))))"

definition add_odometry_measurements ::
  "('t, 'r) kernel \<Rightarrow> bool \<Rightarrow> GoatsParser \<Rightarrow> FactorGraphData \<Rightarrow> error + FactorGraphData" where
  "add_odometry_measurements K strict p g =
     (case positions p of Inl e \<Rightarrow> Inl e | Inr ps \<Rightarrow>
      case np_index ps 0 of Inl e \<Rightarrow> Inl e | Inr start_pos \<Rightarrow>
      case rotations p of Inl e \<Rightarrow> Inl e | Inr rs \<Rightarrow>
      case np_index rs 0 of Inl e \<Rightarrow> Inl e | Inr start_rot \<Rightarrow>
      case get_transformation_matrix K p start_rot start_pos of Inl e \<Rightarrow> Inl e | Inr curr_pose \<Rightarrow>
      case get_transformation_matrix K p start_rot start_pos of Inl e \<Rightarrow> Inl e | Inr prev_pose \<Rightarrow>
        add_odometry_measurements_loop K strict p (enumerate 0 (zip ps rs)) prev_pose ''A0'' g)"


text \<open>
  \<open>_add_range_measurements\<close>. The inner loop runs over \<open>enumerate(ranges)\<close> of one
  beacon. The test of the physical bounds guards only \<open>pass\<close>: both of its branches go
  on to build and add the measurement.
\<close>

definition out_of_bounds :: "npfloat \<Rightarrow> bool" where
  "out_of_bounds d = (np_less d 2.0 \<or> np_greater d 150.0)"

definition emit_range_measurement ::
  "bool \<Rightarrow> string \<Rightarrow> real \<Rightarrow> nat \<Rightarrow> npfloat \<Rightarrow> FactorGraphData \<Rightarrow> error + FactorGraphData" where
  "emit_range_measurement strict beacon_name range_stddev pose_idx d g =
     (let pose_name = pose_id pose_idx;
          assoc = [pose_name, beacon_name]
      in case FGRangeMeasurement_init assoc d range_stddev of
           Inl e \<Rightarrow> Inl e
         | Inr range_measure \<Rightarrow> add_range_measurement strict g range_measure)"

fun add_range_measurements_beacon ::
  "bool \<Rightarrow> string \<Rightarrow> real \<Rightarrow> (nat \<times> npfloat) list \<Rightarrow> FactorGraphData \<Rightarrow> error + FactorGraphData" where
  "add_range_measurements_beacon strict beacon_name range_stddev [] g = Inr g"
| "add_range_measurements_beacon strict beacon_name range_stddev ((pose_idx, d) # rest) g =
     (if isnan d \<or> isinf d \<or> \<not> isreal d then
        add_range_measurements_beacon strict beacon_name range_stddev rest g
      else
        (case (if out_of_bounds d
               then emit_range_measurement strict beacon_name range_stddev pose_idx d g
               else emit_range_measurement strict beacon_name range_stddev pose_idx d g) of
           Inl e \<Rightarrow> Inl e
         | Inr g' \<Rightarrow> add_range_measurements_beacon strict beacon_name range_stddev rest g'))"

fun add_range_measurements_loop ::
  "bool \<Rightarrow> GoatsParser \<Rightarrow> real \<Rightarrow> nat list \<Rightarrow> FactorGraphData \<Rightarrow> error + FactorGraphData" where
  "add_range_measurements_loop strict p range_stddev [] g = Inr g"
| "add_range_measurements_loop strict p range_stddev (beacon_idx # rest) g =
     (case get_ranges p beacon_idx of
        Inl e \<Rightarrow> Inl e
      | Inr ranges \<Rightarrow>
          (let beacon_name = landmark_id beacon_idx in
           case add_range_measurements_beacon strict beacon_name range_stddev (enumerate 0 ranges) g of
             Inl e \<Rightarrow> Inl e
           | Inr g' \<Rightarrow> add_range_measurements_loop strict p range_stddev rest g'))"

definition add_range_measurements ::
  "bool \<Rightarrow> GoatsParser \<Rightarrow> FactorGraphData \<Rightarrow> error + FactorGraphData" where
  "add_range_measurements strict p g =
     (let range_precision = (10.0 :: real);
          range_stddev = (1.0 / range_precision) powr 0.5;
          range_stddev = (0.75 :: real)
      in add_range_measurements_loop strict p range_stddev [0..<num_beacons p] g)"

definition fill_factor_graph ::
  "('t, 'r) kernel \<Rightarrow> bool \<Rightarrow> GoatsParser \<Rightarrow> FactorGraphData \<Rightarrow> error + FactorGraphData" where
  "fill_factor_graph K strict p g =
     (case add_beacon_variables p g of Inl e \<Rightarrow> Inl e | Inr g1 \<Rightarrow>
      case add_pose_variables p g1 of Inl e \<Rightarrow> Inl e | Inr g2 \<Rightarrow>
      case add_odometry_measurements K strict p g2 of Inl e \<Rightarrow> Inl e | Inr g3 \<Rightarrow>
        add_range_measurements strict p g3)"


subsection \<open>GoatsParser: construction\<close>

text \<open>
  \<open>_check_beacon_num_consistent\<close>: the chained comparison of the assertion holds when
  both equalities do. Assertions are taken as enabled.
\<close>

definition check_beacon_num_consistent :: "GoatsParser \<Rightarrow> error + unit" where
  "check_beacon_num_consistent p =
     (let num_beacon_locs = length (beacon_locs p);
          data_col_names = df_columns (data p);
          range_cols = filter (\<lambda>c. startswith c ''ranges_'' \<and> \<not> contains c ''filtered'') data_col_names;
          filtered_range_cols = filter (\<lambda>c. startswith c ''filtered_ranges_'') data_col_names
      in if length range_cols = length filtered_range_cols
            \<and> length filtered_range_cols = num_beacon_locs
         then Inr ()
         else Inl (AssertionError
                (''Number of beacon info is inconsistent. '' @ string_of_nat (length range_cols)
                 @ '' vs '' @ string_of_nat (length filtered_range_cols)
                 @ '' vs '' @ string_of_nat num_beacon_locs)))"

text \<open>
  What the two \<open>pd.read_csv\<close> calls return for a path: the sensor table, and the
  headerless beacon table as its list of columns.
\<close>

record files =
  read_csv :: "path \<Rightarrow> error + dataframe"
  read_csv_headerless :: "path \<Rightarrow> error + npfloat list list"

text \<open>
  The generated constructor runs the validators of the two paths (the validator of
  \<open>dim\<close> returns a truth value and raises nothing), then \<open>__attrs_post_init__\<close>: both
  files are read, the beacon columns are cut to their first \<open>dim\<close> rows, the beacon
  count is checked, and only then the empty graph is created and filled.
\<close>

definition GoatsParser_init ::
  "('t, 'r) kernel \<Rightarrow> bool \<Rightarrow> files \<Rightarrow> path \<Rightarrow> path \<Rightarrow> int \<Rightarrow> bool \<Rightarrow>
     error + GoatsParser \<times> FactorGraphData" where
  "GoatsParser_init K strict fs data_path beacon_path d filt =
     (case verify_path_is_goats_csv data_path of Inl e \<Rightarrow> Inl e | Inr _ \<Rightarrow>
      case verify_path_is_goats_csv beacon_path of Inl e \<Rightarrow> Inl e | Inr _ \<Rightarrow>
      case read_csv fs data_path of Inl e \<Rightarrow> Inl e | Inr df \<Rightarrow>
      case read_csv_headerless fs beacon_path of Inl e \<Rightarrow> Inl e | Inr beacon_loc_df \<Rightarrow>
        (let p = \<lparr>data_file_path = data_path, beacon_loc_file_path = beacon_path, dim = d,
                  filter_ranges = filt, data = df,
                  beacon_locs = map (slice_to d) beacon_loc_df\<rparr>
         in case check_beacon_num_consistent p of Inl e \<Rightarrow> Inl e | Inr _ \<Rightarrow>
            case fill_factor_graph K strict p (FactorGraphData_init d) of
              Inl e \<Rightarrow> Inl e
            | Inr g \<Rightarrow> Inr (p, g)))"


subsection \<open>A planar kernel\<close>

text \<open>
  Modelled from the spec: the 2D Geometry Kernel on finite inputs. A transformation is
  the homogeneous matrix with the rotation in its upper-left block, the translation in
  its last column and the bottom row \<open>[0, 0, 1]\<close>; the relative pose is the product of
  the inverse of the first transformation with the second; the angle of a rotation
  \<open>R\<close> is \<open>atan2(R[1,0], R[0,0])\<close>. A non-finite input gives NaN.
\<close>

type_synonym matrix = "real list list"

definition rotation_matrix_from_angle :: "real \<Rightarrow> matrix" where
  "rotation_matrix_from_angle t = [[cos t, - sin t], [sin t, cos t]]"

fun transformation_matrix :: "matrix \<Rightarrow> real list \<Rightarrow> matrix" where
  "transformation_matrix [[r00, r01], [r10, r11]] [tx, ty] =
     [[r00, r01, tx], [r10, r11, ty], [0, 0, 1]]"
| "transformation_matrix _ _ = []"

fun relative_pose :: "matrix \<Rightarrow> matrix \<Rightarrow> matrix \<times> real list" where
  "relative_pose [[a00, a01, ax], [a10, a11, ay], _] [[b00, b01, bx], [b10, b11, by], _] =
     ([[a00 * b00 + a10 * b10, a00 * b01 + a10 * b11],
       [a01 * b00 + a11 * b10, a01 * b01 + a11 * b11]],
      [a00 * (bx - ax) + a10 * (by - ay), a01 * (bx - ax) + a11 * (by - ay)])"
| "relative_pose _ _ = ([], [])"

definition atan2 :: "real \<Rightarrow> real \<Rightarrow> real" where
  "atan2 v u =
     (if 0 < u then arctan (v / u)
      else if u < 0 \<and> 0 \<le> v then arctan (v / u) + pi
      else if u < 0 then arctan (v / u) - pi
      else if 0 < v then pi / 2
      else if v < 0 then - (pi / 2)
      else 0)"

fun angle_from_rotation_matrix :: "matrix \<Rightarrow> real" where
  "angle_from_rotation_matrix [[r00, _], [r10, _]] = atan2 r10 r00"
| "angle_from_rotation_matrix _ = 0"

fun finite_values :: "npfloat list \<Rightarrow> real list option" where
  "finite_values [] = Some []"
| "finite_values (Fin r # vs) = map_option ((#) r) (finite_values vs)"
| "finite_values (_ # vs) = None"

definition planar_kernel :: "(matrix option, matrix option) kernel" where
  "planar_kernel =
     \<lparr>make_transformation_matrix_from_theta =
        (\<lambda>rot translation.
           case (rot, finite_values translation) of
             (Fin t, Some tr) \<Rightarrow> Some (transformation_matrix (rotation_matrix_from_angle t) tr)
           | _ \<Rightarrow> None),
      get_relative_rot_and_trans_between_poses =
        (\<lambda>prev_pose curr_pose.
           case (prev_pose, curr_pose) of
             (Some a, Some b) \<Rightarrow>
               (case relative_pose a b of (r, tr) \<Rightarrow> (Some r, map Fin tr))
           | _ \<Rightarrow> (None, [NaN, NaN])),
      get_theta_from_rotation_matrix =
        (\<lambda>r. case r of Some m \<Rightarrow> Fin (angle_from_rotation_matrix m) | None \<Rightarrow> NaN)\<rparr>"


subsection \<open>An example run\<close>

text \<open>
  A sensor table of five rows for two beacons, read with \<open>dim = 2\<close> and raw ranges. The
  first beacon has readings in rows 0, 1 and 4 (the values 1 and 200 lie outside the
  physical bounds, the last one is infinite); the second beacon has its only reading in
  row 3; row 2 has no reading at all.
\<close>

definition example_path :: "string \<Rightarrow> path" where
  "example_path s =
     \<lparr>path_str = s, path_exists = True, path_is_file = True, path_suffix = ''.csv''\<rparr>"

definition example_data :: dataframe where
  "example_data =
     \<lparr>nrows = 5,
      cols =
        [(''insXYZ_1'', [Fin 0, Fin 1, Fin 2, Fin 3, Fin 4]),
         (''insXYZ_2'', [Fin 0, Fin 0, Fin 0, Fin 0, Fin 0]),
         (''iNav_GT_1'', [Fin 0, Fin 1, Fin 2, Fin 3, Fin 4]),
         (''iNav_GT_2'', [Fin 0, Fin 0, Fin 0, Fin 0, Fin 0]),
         (''insRPY_3'', [Fin 0, Fin 0, Fin 0, Fin 0, Fin 0]),
         (''ranges_1'', [Fin 1, Fin 200, NaN, NaN, PInf]),
         (''ranges_2'', [NaN, NaN, NaN, Fin 8, NaN]),
         (''filtered_ranges_1'', [Fin 1, Fin 200, NaN, NaN, PInf]),
         (''filtered_ranges_2'', [NaN, NaN, NaN, Fin 8, NaN])]\<rparr>"

definition example_beacons :: "npfloat list list" where
  "example_beacons = [[Fin 10, Fin 0], [Fin 0, Fin 10]]"

definition example_parser :: GoatsParser where
  "example_parser =
     \<lparr>data_file_path = example_path ''goats.csv'',
      beacon_loc_file_path = example_path ''beacons.csv'',
      dim = 2, filter_ranges = False, data = example_data,
      beacon_locs = example_beacons\<rparr>"

definition example_files :: files where
  "example_files =
     \<lparr>read_csv = (\<lambda>p. if path_str p = ''goats.csv'' then Inr example_data
                       else Inl (ReadError (path_str p))),
      read_csv_headerless = (\<lambda>p. if path_str p = ''beacons.csv'' then Inr example_beacons
                                  else Inl (ReadError (path_str p)))\<rparr>"


text \<open>The graph after each of the four steps of \<open>_fill_factor_graph\<close> on the example.\<close>

definition example_landmarks_graph :: FactorGraphData where
  "example_landmarks_graph =
     \<lparr>dimension = 2, pose_variables = [],
      landmark_variables = [LandmarkVariable2D_init ''L0'' [Fin 10, Fin 0]],
      odom_measurements = [], range_measurements = []\<rparr>"

definition example_poses_graph :: FactorGraphData where
  "example_poses_graph =
     example_landmarks_graph
       \<lparr>pose_variables :=
          [PoseVariable2D_init ''A0'' [Fin 0, Fin 0] (Fin 0),
           PoseVariable2D_init ''A1'' [Fin 1, Fin 0] (Fin 0),
           PoseVariable2D_init ''A3'' [Fin 3, Fin 0] (Fin 0),
           PoseVariable2D_init ''A4'' [Fin 4, Fin 0] (Fin 0)]\<rparr>"

definition example_odometry :: "string \<Rightarrow> string \<Rightarrow> real \<Rightarrow> PoseMeasurement2D" where
  "example_odometry b t dx =
     \<lparr>pm_base_pose = b, pm_to_pose = t, pm_x = Fin dx, pm_y = Fin 0, pm_theta = Fin 0,
      pm_translation_precision = 2500, pm_rotation_precision = 250000\<rparr>"

definition example_odometry_graph :: FactorGraphData where
  "example_odometry_graph =
     example_poses_graph
       \<lparr>odom_measurements :=
          [example_odometry ''A0'' ''A1'' 1, example_odometry ''A1'' ''A3'' 2,
           example_odometry ''A3'' ''A4'' 1]\<rparr>"

definition example_range :: "string \<Rightarrow> string \<Rightarrow> npfloat \<Rightarrow> FGRangeMeasurement" where
  "example_range a l d = \<lparr>association = [a, l], dist = d, stddev = 0.75\<rparr>"

definition example_full_graph :: FactorGraphData where
  "example_full_graph =
     example_odometry_graph
       \<lparr>range_measurements :=
          [example_range ''A0'' ''L0'' (Fin 1), example_range ''A1'' ''L0'' (Fin 200),
           example_range ''A3'' ''L1'' (Fin 8)]\<rparr>"

text \<open>The example with a yaw that differs from row to row.\<close>

definition turning_parser :: GoatsParser where
  "turning_parser =
     example_parser
       \<lparr>data := example_data
          \<lparr>cols := (''insRPY_3'', [Fin 0.1, Fin 0.2, Fin 0.3, Fin 0.4, Fin 0.5])
                    # filter (\<lambda>c. fst c \<noteq> ''insRPY_3'') (cols example_data)\<rparr>\<rparr>"

definition turning_poses_graph :: FactorGraphData where
  "turning_poses_graph =
     example_landmarks_graph
       \<lparr>pose_variables :=
          [PoseVariable2D_init ''A0'' [Fin 0, Fin 0] (Fin 0.1),
           PoseVariable2D_init ''A1'' [Fin 1, Fin 0] (Fin 0.2),
           PoseVariable2D_init ''A3'' [Fin 3, Fin 0] (Fin 0.4),
           PoseVariable2D_init ''A4'' [Fin 4, Fin 0] (Fin 0.5)]\<rparr>"


text \<open>A beacon table of three beacons, one more than the example table has range columns for.\<close>

definition three_beacons :: "npfloat list list" where
  "three_beacons = [[Fin 10, Fin 0], [Fin 0, Fin 10], [Fin 5, Fin 5]]"


section \<open>Properties of the measurement entities\<close>

lemma distinct_messages:
  "distinct [msg_two_variables, msg_unique, msg_first_pose, msg_second_landmark]"
  by (simp add: msg_two_variables_def msg_unique_def msg_first_pose_def msg_second_landmark_def)

lemma check_association_not_two:
  "length a \<noteq> 2 \<Longrightarrow> check_association a = Inl (ValueError msg_two_variables)"
  by (cases a rule: check_association.cases) simp_all

lemma length_two_nth: "length a = 2 \<Longrightarrow> a = [a ! 0, a ! 1]"
  by (cases a; cases "tl a") auto

lemma duplicate_iff: "length v \<noteq> length (remdups v) \<longleftrightarrow> \<not> distinct v"
  by (metis distinct_remdups length_remdups_eq remdups_id_iff_distinct)

text \<open>
  C2, as the code has it. \<open>PoseMeasurement\<close> runs no validator: construction never fails
  and stores the two precisions as given, whatever their sign. For a measurement whose
  precisions are strictly positive, \<open>covariance\<close> is the diagonal matrix of their
  reciprocals, and its entries are positive.
\<close>

theorem PoseMeasurement_unvalidated:
  "PoseMeasurement_init b t px py th tw rw
     = Inr \<lparr>base_pose = b, to_pose = t, delta_x = px, delta_y = py, delta_theta = th,
            translation_weight = tw, rotation_weight = rw\<rparr>
   \<and> (0 < translation_weight m \<and> 0 < rotation_weight m \<longrightarrow>
        covariance m = Inr [[1 / translation_weight m, 0, 0],
                            [0, 1 / translation_weight m, 0],
                            [0, 0, 1 / rotation_weight m]]
        \<and> 0 < 1 / translation_weight m \<and> 0 < 1 / rotation_weight m)"
  by (simp add: PoseMeasurement_init_def covariance_def py_recip_def)

theorem PoseMeasurement_unvalidated_witness:
  "PoseMeasurement_init ''A0'' ''A1'' 1 2 0 4 2
     = Inr \<lparr>base_pose = ''A0'', to_pose = ''A1'', delta_x = 1, delta_y = 2, delta_theta = 0,
            translation_weight = 4, rotation_weight = 2\<rparr>
   \<and> covariance \<lparr>base_pose = ''A0'', to_pose = ''A1'', delta_x = 1, delta_y = 2, delta_theta = 0,
            translation_weight = 4, rotation_weight = 2\<rparr>
       = Inr [[1 / 4, 0, 0], [0, 1 / 4, 0], [0, 0, 1 / 2]]"
  using PoseMeasurement_unvalidated [of "''A0''" "''A1''" 1 2 0 4 2
          "\<lparr>base_pose = ''A0'', to_pose = ''A1'', delta_x = 1, delta_y = 2, delta_theta = 0,
            translation_weight = 4, rotation_weight = 2\<rparr>"]
  by simp

text \<open>
  C2, as the spec states it, fails: a Pose Measurement with translation precision 0 and
  rotation precision -1 is constructed without error. Its \<open>covariance\<close> then raises
  ZeroDivisionError; with translation precision 4 and rotation precision -1 the
  covariance has the negative entry -1.
\<close>

theorem PoseMeasurement_accepts_nonpositive_precision:
  "PoseMeasurement_init ''A0'' ''A1'' 1 2 0 0 (- 1)
     = Inr \<lparr>base_pose = ''A0'', to_pose = ''A1'', delta_x = 1, delta_y = 2, delta_theta = 0,
            translation_weight = 0, rotation_weight = - 1\<rparr>
   \<and> covariance \<lparr>base_pose = ''A0'', to_pose = ''A1'', delta_x = 1, delta_y = 2, delta_theta = 0,
            translation_weight = 0, rotation_weight = - 1\<rparr> = Inl ZeroDivisionError
   \<and> covariance \<lparr>base_pose = ''A0'', to_pose = ''A1'', delta_x = 1, delta_y = 2, delta_theta = 0,
            translation_weight = 4, rotation_weight = - 1\<rparr>
       = Inr [[1 / 4, 0, 0], [0, 1 / 4, 0], [0, 0, - 1]]"
  by (simp add: PoseMeasurement_init_def covariance_def py_recip_def)

text \<open>
  C4. Construction of an \<open>FGRangeMeasurement\<close> fails exactly when the association does
  not have two elements, or its two elements are equal, or the first starts with
  \<open>L\<close>, or the second does not. Each rejection is a ValueError with a message of
  its own (the first test that fails decides), and the four messages are pairwise
  different. A measurement that was constructed with a non-zero \<open>stddev\<close> has the weight
  \<open>1 / stddev\<^sup>2\<close>.
\<close>

theorem FGRangeMeasurement_construction:
  "(isl (FGRangeMeasurement_init a d s) \<longleftrightarrow>
      (length a \<noteq> 2 \<or> a ! 0 = a ! 1 \<or> startswith (a ! 0) ''L'' \<or> \<not> startswith (a ! 1) ''L''))
   \<and> (length a \<noteq> 2 \<longrightarrow>
        FGRangeMeasurement_init a d s = Inl (ValueError msg_two_variables))
   \<and> (length a = 2 \<and> a ! 0 = a ! 1 \<longrightarrow>
        FGRangeMeasurement_init a d s = Inl (ValueError msg_unique))
   \<and> (length a = 2 \<and> a ! 0 \<noteq> a ! 1 \<and> startswith (a ! 0) ''L'' \<longrightarrow>
        FGRangeMeasurement_init a d s = Inl (ValueError msg_first_pose))
   \<and> (length a = 2 \<and> a ! 0 \<noteq> a ! 1 \<and> \<not> startswith (a ! 0) ''L'' \<and> \<not> startswith (a ! 1) ''L'' \<longrightarrow>
        FGRangeMeasurement_init a d s = Inl (ValueError msg_second_landmark))
   \<and> distinct [msg_two_variables, msg_unique, msg_first_pose, msg_second_landmark]
   \<and> (FGRangeMeasurement_init a d s = Inr m \<and> s \<noteq> 0 \<longrightarrow> weight m = Inr (1 / s\<^sup>2))"
proof (cases "length a = 2")
  case False
  then show ?thesis
    using distinct_messages
    by (simp add: FGRangeMeasurement_init_def check_association_not_two)
next
  case True
  then obtain v0 v1 where a: "a = [v0, v1]"
    using length_two_nth by blast
  show ?thesis
    unfolding a FGRangeMeasurement_init_def
    using distinct_messages by (auto simp: weight_def py_recip_def)
qed

theorem FGRangeMeasurement_construction_witness:
  "FGRangeMeasurement_init [''A1'', ''L0''] (Fin 5) (3 / 4)
     = Inr \<lparr>association = [''A1'', ''L0''], dist = Fin 5, stddev = 3 / 4\<rparr>
   \<and> weight \<lparr>association = [''A1'', ''L0''], dist = Fin 5, stddev = 3 / 4\<rparr> = Inr (16 / 9)
   \<and> FGRangeMeasurement_init [''A1''] (Fin 5) (3 / 4) = Inl (ValueError msg_two_variables)
   \<and> FGRangeMeasurement_init [''A1'', ''A1''] (Fin 5) (3 / 4) = Inl (ValueError msg_unique)
   \<and> FGRangeMeasurement_init [''L1'', ''L0''] (Fin 5) (3 / 4) = Inl (ValueError msg_first_pose)
   \<and> FGRangeMeasurement_init [''A1'', ''A0''] (Fin 5) (3 / 4) = Inl (ValueError msg_second_landmark)"
  using FGRangeMeasurement_construction
          [of "[''A1'', ''L0'']" "Fin 5" "3 / 4"
              "\<lparr>association = [''A1'', ''L0''], dist = Fin 5, stddev = 3 / 4\<rparr>"]
        FGRangeMeasurement_construction [of "[''A1'']" "Fin 5" "3 / 4"]
        FGRangeMeasurement_construction [of "[''A1'', ''A1'']" "Fin 5" "3 / 4"]
        FGRangeMeasurement_construction [of "[''L1'', ''L0'']" "Fin 5" "3 / 4"]
        FGRangeMeasurement_construction [of "[''A1'', ''A0'']" "Fin 5" "3 / 4"]
  by (simp add: FGRangeMeasurement_init_def startswith_def power2_eq_square)

text \<open>
  C6. Construction of an \<open>AmbiguousFGRangeMeasurement\<close> fails exactly when one of the two
  associations does not have two elements or holds a duplicate. No role is required of
  the elements: the pair of two landmark identifiers \<open>(L0, L1)\<close> is accepted for both
  associations, while \<open>FGRangeMeasurement\<close> rejects it.
\<close>

theorem AmbiguousFGRangeMeasurement_construction:
  "(isl (AmbiguousFGRangeMeasurement_init ta ma d s) \<longleftrightarrow>
      (length ta \<noteq> 2 \<or> \<not> distinct ta \<or> length ma \<noteq> 2 \<or> \<not> distinct ma))
   \<and> \<not> isl (AmbiguousFGRangeMeasurement_init [''L0'', ''L1''] [''L0'', ''L1''] d s)
   \<and> isl (FGRangeMeasurement_init [''L0'', ''L1''] d s)"
proof -
  have t: "isl (check_true_association v) \<longleftrightarrow> length v \<noteq> 2 \<or> \<not> distinct v" for v
    unfolding check_true_association_def duplicate_iff by simp
  have m: "isl (check_measured_association v) \<longleftrightarrow> length v \<noteq> 2 \<or> \<not> distinct v" for v
    unfolding check_measured_association_def duplicate_iff by simp
  have i: "isl (AmbiguousFGRangeMeasurement_init ta ma d s) \<longleftrightarrow>
             isl (check_true_association ta) \<or> isl (check_measured_association ma)" for ta ma
    by (simp add: AmbiguousFGRangeMeasurement_init_def split: sum.splits)
  have r: "isl (FGRangeMeasurement_init [''L0'', ''L1''] d s)"
    by (simp add: FGRangeMeasurement_init_def startswith_def)
  show ?thesis
    unfolding i t m using r by auto
qed

theorem AmbiguousFGRangeMeasurement_construction_witness:
  "isl (AmbiguousFGRangeMeasurement_init [''A1'', ''A1''] [''A1'', ''L0''] (Fin 5) 1)
   \<and> isl (AmbiguousFGRangeMeasurement_init [''A1'', ''L0''] [''A1''] (Fin 5) 1)
   \<and> \<not> isl (AmbiguousFGRangeMeasurement_init [''L0'', ''A1''] [''A2'', ''A3''] (Fin 5) 1)"
  using AmbiguousFGRangeMeasurement_construction [of "[''A1'', ''A1'']" "[''A1'', ''L0'']" "Fin 5" 1]
        AmbiguousFGRangeMeasurement_construction [of "[''A1'', ''L0'']" "[''A1'']" "Fin 5" 1]
        AmbiguousFGRangeMeasurement_construction [of "[''L0'', ''A1'']" "[''A2'', ''A3'']" "Fin 5" 1]
  by simp

section \<open>Identifiers\<close>

lemma digit_char_inj: "d < 10 \<Longrightarrow> e < 10 \<Longrightarrow> digit_char d = digit_char e \<Longrightarrow> d = e"
proof -
  assume d: "d < 10" and e: "e < 10" and eq: "digit_char d = digit_char e"
  from eq have "(of_char (char_of (48 + d)) :: nat) = of_char (char_of (48 + e))"
    by (simp add: digit_char_def)
  with d e show "d = e" by simp
qed

lemma string_of_nat_nonempty: "string_of_nat n \<noteq> []"
  by (subst string_of_nat.simps) simp

lemma string_of_nat_inj: "string_of_nat m = string_of_nat n \<Longrightarrow> m = n"
proof (induction m arbitrary: n rule: string_of_nat.induct)
  case (1 m)
  show ?case
  proof (cases "m < 10")
    case m: True
    show ?thesis
    proof (cases "n < 10")
      case True
      with m "1.prems" show ?thesis
        by (simp add: string_of_nat.simps [of m] string_of_nat.simps [of n] digit_char_inj)
    next
      case False
      with m "1.prems" string_of_nat_nonempty [of "n div 10"] show ?thesis
        by (simp add: string_of_nat.simps [of m] string_of_nat.simps [of n])
    qed
  next
    case m: False
    show ?thesis
    proof (cases "n < 10")
      case True
      with m "1.prems" string_of_nat_nonempty [of "m div 10"] show ?thesis
        by (simp add: string_of_nat.simps [of m] string_of_nat.simps [of n])
    next
      case False
      with m "1.prems" have s: "string_of_nat (m div 10) = string_of_nat (n div 10)"
        and c: "digit_char (m mod 10) = digit_char (n mod 10)"
        by (simp_all add: string_of_nat.simps [of m] string_of_nat.simps [of n])
      from "1.IH" [OF m s] have "m div 10 = n div 10" .
      moreover from c have "m mod 10 = n mod 10"
        by (intro digit_char_inj) simp_all
      ultimately show ?thesis
        by (metis div_mult_mod_eq)
    qed
  qed
qed

lemma pose_id_inj: "pose_id i = pose_id j \<longleftrightarrow> i = j"
  by (auto simp: pose_id_def dest: string_of_nat_inj)

lemma landmark_id_inj: "landmark_id i = landmark_id j \<longleftrightarrow> i = j"
  by (auto simp: landmark_id_def dest: string_of_nat_inj)

lemma pose_id_not_landmark_id: "pose_id i \<noteq> landmark_id b"
  by (simp add: pose_id_def landmark_id_def)

lemma pose_id_not_L: "\<not> startswith (pose_id i) ''L''"
  by (simp add: pose_id_def startswith_def)

lemma landmark_id_L: "startswith (landmark_id b) ''L''"
  by (simp add: landmark_id_def startswith_def)

lemma pose_id_values:
  "pose_id 0 = ''A0''" "pose_id 1 = ''A1''" "pose_id 2 = ''A2''" "pose_id 3 = ''A3''"
  "pose_id 4 = ''A4''"
  by code_simp+

lemma landmark_id_values:
  "landmark_id 0 = ''L0''" "landmark_id 1 = ''L1''" "landmark_id 2 = ''L2''"
  by code_simp+

lemma string_of_nat_values:
  "string_of_nat 0 = ''0''" "string_of_nat 1 = ''1''" "string_of_nat 2 = ''2''"
  "string_of_nat 3 = ''3''" "string_of_nat 4 = ''4''"
  by code_simp+


section \<open>Tables and range coverage\<close>

lemma df_cols_length:
  "df_cols df names = Inr cs \<Longrightarrow> length cs = length names"
  by (induction names arbitrary: cs) (auto split: sum.splits)

lemma df_rows_length: "df_rows df names = Inr rows \<Longrightarrow> length rows = nrows df"
  by (auto simp: df_rows_def split: sum.splits)

lemma df_col_length:
  "wf_dataframe df \<Longrightarrow> df_col df name = Inr c \<Longrightarrow> length c = nrows df"
  by (auto simp: wf_dataframe_def df_col_def list_all_iff split: option.splits dest!: map_of_SomeD)

lemma rotations_Inr:
  "rotations p = Inr rs \<Longrightarrow> dim p = 2 \<and> df_col (data p) ''insRPY_3'' = Inr rs"
  by (auto simp: rotations_def split: if_splits)

lemma filter_enumerate_fst:
  "map fst (filter (\<lambda>r. P (fst r)) (enumerate n xs)) = filter P [n..<n + length xs]"
proof (induction xs arbitrary: n)
  case Nil
  then show ?case by simp
next
  case (Cons a xs)
  have "[n..<n + length (a # xs)] = n # [Suc n..<n + length (a # xs)]"
    by (rule upt_conv_Cons) simp
  moreover have "n + length (a # xs) = Suc n + length xs"
    by simp
  ultimately have "[n..<n + length (a # xs)] = n # [Suc n..<Suc n + length xs]"
    by metis
  with Cons.IH [of "Suc n"] show ?case
    by (simp del: upt_Suc)
qed

lemma range_data_at_row_Inr:
  "range_data_at_row p row idxs = Inr vs \<Longrightarrow>
     list_all2 (\<lambda>b v. \<exists>r. get_ranges p b = Inr r \<and> row < length r \<and> v = r ! row) idxs vs"
proof (induction idxs arbitrary: vs)
  case Nil
  then show ?case by simp
next
  case (Cons b bs)
  then show ?case
    by (auto simp: np_index_def split: sum.splits if_splits)
qed

lemma row_has_range_measures_Inr:
  assumes "row_has_range_measures p row = Inr h"
  shows "h \<longleftrightarrow> (\<exists>b<num_beacons p. \<exists>r. get_ranges p b = Inr r \<and> \<not> isnan (r ! row))"
proof -
  from assms obtain vs where vs: "range_data_at_row p row [0..<num_beacons p] = Inr vs"
    and h: "h = list_ex (\<lambda>v. \<not> isnan v) vs"
    by (auto simp: row_has_range_measures_def split: sum.splits)
  from range_data_at_row_Inr [OF vs]
  have l: "list_all2 (\<lambda>b v. \<exists>r. get_ranges p b = Inr r \<and> row < length r \<and> v = r ! row)
             [0..<num_beacons p] vs" .
  then have len: "length vs = num_beacons p"
    by (auto dest: list_all2_lengthD)
  have nth: "\<exists>r. get_ranges p b = Inr r \<and> vs ! b = r ! row" if "b < num_beacons p" for b
    using list_all2_nthD [OF l, of b] that by auto
  show ?thesis
  proof
    assume h
    then obtain k where k: "k < length vs" "\<not> isnan (vs ! k)"
      unfolding h list_ex_iff by (auto simp: in_set_conv_nth)
    with nth [of k] len show "\<exists>b<num_beacons p. \<exists>r. get_ranges p b = Inr r \<and> \<not> isnan (r ! row)"
      by auto
  next
    assume "\<exists>b<num_beacons p. \<exists>r. get_ranges p b = Inr r \<and> \<not> isnan (r ! row)"
    then obtain b r where b: "b < num_beacons p" "get_ranges p b = Inr r" "\<not> isnan (r ! row)"
      by blast
    with nth [of b] have "\<not> isnan (vs ! b)" by auto
    moreover from b len have "vs ! b \<in> set vs" by simp
    ultimately show h
      unfolding h list_ex_iff by blast
  qed
qed

lemma add_pose_variables_loop_Inr:
  "add_pose_variables_loop p rows g = Inr g' \<Longrightarrow>
     g' = g\<lparr>pose_variables := pose_variables g
            @ map (\<lambda>r. PoseVariable2D_init (pose_id (fst r)) (fst (snd r)) (snd (snd r)))
                (filter (\<lambda>r. fst r = 0 \<or> row_has_range_measures p (fst r) = Inr True) rows)\<rparr>"
proof (induction rows arbitrary: g)
  case Nil
  then show ?case by simp
next
  case (Cons r rows)
  obtain idx position rot where r: "r = (idx, position, rot)"
    by (cases r) auto
  from Cons.prems obtain has where has: "row_has_range_measures p idx = Inr has"
    unfolding r by (auto split: sum.splits)
  show ?case
  proof (cases "\<not> has \<and> idx \<noteq> 0")
    case True
    with Cons.prems has have "add_pose_variables_loop p rows g = Inr g'"
      unfolding r by simp
    from Cons.IH [OF this] True has show ?thesis
      unfolding r by auto
  next
    case False
    with Cons.prems has obtain g1 where
      g1: "add_pose_variable g (PoseVariable2D_init (pose_id idx) position rot) = Inr g1"
      and rest: "add_pose_variables_loop p rows g1 = Inr g'"
      unfolding r by (auto split: sum.splits)
    from g1 have "g1 = g\<lparr>pose_variables := pose_variables g
                       @ [PoseVariable2D_init (pose_id idx) position rot]\<rparr>"
      by (auto simp: add_pose_variable_def split: if_splits)
    with Cons.IH [OF rest] False has show ?thesis
      unfolding r by auto
  qed
qed

lemma enumerate_map_nth: "enumerate 0 xs = map (\<lambda>i. (i, xs ! i)) [0..<length xs]"
  by (rule nth_equalityI) (simp_all add: nth_enumerate_eq)

lemma add_pose_variables_loop_rows:
  "add_pose_variables_loop p rows g = Inr g' \<Longrightarrow> r \<in> set rows \<Longrightarrow>
     \<exists>h. row_has_range_measures p (fst r) = Inr h"
proof (induction rows arbitrary: g)
  case Nil
  then show ?case by simp
next
  case (Cons a rows)
  obtain idx position rot where a: "a = (idx, position, rot)"
    by (cases a) auto
  from Cons.prems(1) obtain h where h: "row_has_range_measures p idx = Inr h"
    unfolding a by (auto split: sum.splits)
  from Cons.prems(1) h obtain g1 where "add_pose_variables_loop p rows g1 = Inr g'"
    unfolding a by (auto split: sum.splits if_splits)
  with Cons.IH Cons.prems(2) h a show ?case
    by auto
qed

text \<open>The rows that \<open>_add_pose_variables\<close> admits, in terms of the readings.\<close>

lemma add_pose_variables_Inr:
  assumes wf: "wf_dataframe (data p)" and run: "add_pose_variables p g = Inr g'"
  shows "\<exists>ps rs. gt_positions p = Inr ps \<and> rotations p = Inr rs
           \<and> length ps = nrows (data p) \<and> length rs = nrows (data p)
           \<and> g' = g\<lparr>pose_variables := pose_variables g
                  @ map (\<lambda>row. PoseVariable2D_init (pose_id row) (ps ! row) (rs ! row))
                      (filter (\<lambda>row. row = 0
                                 \<or> (\<exists>b<num_beacons p. \<exists>r. get_ranges p b = Inr r \<and> \<not> isnan (r ! row)))
                         [0..<nrows (data p)])\<rparr>"
proof -
  from run obtain ps rs where ps: "gt_positions p = Inr ps" and rs: "rotations p = Inr rs"
    and loop: "add_pose_variables_loop p (enumerate 0 (zip ps rs)) g = Inr g'"
    by (auto simp: add_pose_variables_def gt_rotations_def split: sum.splits)
  have lps: "length ps = nrows (data p)"
    using ps by (auto simp: gt_positions_def dest: df_rows_length)
  have lrs: "length rs = nrows (data p)"
    using rotations_Inr [OF rs] wf by (auto dest: df_col_length)
  let ?n = "nrows (data p)"
  let ?Q = "\<lambda>row. row = 0 \<or> row_has_range_measures p row = Inr True"
  let ?R = "\<lambda>row. row = 0
              \<or> (\<exists>b<num_beacons p. \<exists>r. get_ranges p b = Inr r \<and> \<not> isnan (r ! row))"
  let ?mk = "\<lambda>row. PoseVariable2D_init (pose_id row) (ps ! row) (rs ! row)"
  have rows: "enumerate 0 (zip ps rs) = map (\<lambda>i. (i, ps ! i, rs ! i)) [0..<?n]"
    using lps lrs by (simp add: enumerate_map_nth)
  have ok: "\<exists>h. row_has_range_measures p row = Inr h" if "row < ?n" for row
    using add_pose_variables_loop_rows [OF loop, of "(row, ps ! row, rs ! row)"] that
    unfolding rows by auto
  have QR: "?Q row \<longleftrightarrow> ?R row" if "row < ?n" for row
  proof -
    from ok [OF that] obtain h where h: "row_has_range_measures p row = Inr h" by blast
    from row_has_range_measures_Inr [OF h] h show ?thesis by auto
  qed
  have "filter ?Q [0..<?n] = filter ?R [0..<?n]"
    by (rule filter_cong) (auto simp: QR)
  moreover have "map (\<lambda>r. PoseVariable2D_init (pose_id (fst r)) (fst (snd r)) (snd (snd r)))
          (filter (\<lambda>r. ?Q (fst r)) (enumerate 0 (zip ps rs)))
        = map ?mk (filter ?Q [0..<?n])"
    unfolding rows by (simp add: filter_map comp_def)
  ultimately show ?thesis
    using add_pose_variables_loop_Inr [OF loop] ps rs lps lrs by auto
qed


section \<open>The example run, step by step\<close>

lemma example_wf: "wf_dataframe (data example_parser)"
  by code_simp

lemma example_beacon_variables:
  "add_beacon_variables example_parser (FactorGraphData_init 2) = Inr example_landmarks_graph"
  by code_simp

lemma example_pose_variables:
  "add_pose_variables example_parser example_landmarks_graph = Inr example_poses_graph"
  by code_simp

lemma example_accessors:
  "dim example_parser = 2"
  "positions example_parser = Inr [[Fin 0, Fin 0], [Fin 1, Fin 0], [Fin 2, Fin 0], [Fin 3, Fin 0], [Fin 4, Fin 0]]"
  "rotations example_parser = Inr [Fin 0, Fin 0, Fin 0, Fin 0, Fin 0]"
  "row_has_range_measures example_parser 0 = Inr True"
  "row_has_range_measures example_parser (Suc 0) = Inr True"
  "row_has_range_measures example_parser (Suc (Suc 0)) = Inr False"
  "row_has_range_measures example_parser (Suc (Suc (Suc 0))) = Inr True"
  "row_has_range_measures example_parser (Suc (Suc (Suc (Suc 0)))) = Inr True"
  "pose_id (Suc 0) = ''A1''"
  "pose_id (Suc (Suc (Suc 0))) = ''A3''"
  "pose_id (Suc (Suc (Suc (Suc 0)))) = ''A4''"
  by code_simp+

lemma example_transformation:
  "get_transformation_matrix planar_kernel example_parser (Fin 0) [Fin a, Fin b]
     = Inr (Some [[1, 0, a], [0, 1, b], [0, 0, 1]])"
  by (simp add: get_transformation_matrix_def example_accessors planar_kernel_def
        rotation_matrix_from_angle_def)

lemma example_relative:
  "relative_pose_measurement planar_kernel (Some [[1, 0, a], [0, 1, 0], [0, 0, 1]])
       (Some [[1, 0, b], [0, 1, 0], [0, 0, 1]]) s t
     = Inr (example_odometry s t (b - a))"
  by (simp add: relative_pose_measurement_def planar_kernel_def atan2_def
        get_measurement_precisions_from_covariances_def py_recip_def
        PoseMeasurement2D_init_def example_odometry_def power2_eq_square)

lemma example_odometry_measurements:
  "add_odometry_measurements planar_kernel strict example_parser example_poses_graph
     = Inr example_odometry_graph"
  by (simp add: add_odometry_measurements_def example_accessors np_index_def
        example_transformation example_relative add_odom_measurement_def pose_exists_def
        example_poses_graph_def example_odometry_graph_def example_odometry_def
        example_landmarks_graph_def PoseVariable2D_init_def Let_def)

lemma add_range_measurements_unfold:
  "add_range_measurements strict p g
     = add_range_measurements_loop strict p 0.75 [0..<num_beacons p] g"
  by (simp add: add_range_measurements_def)

lemma example_range_loop:
  "add_range_measurements_loop False example_parser (3 / 4) [0..<num_beacons example_parser]
       example_odometry_graph
     = Inr example_full_graph"
  "add_range_measurements_loop True example_parser (3 / 4) [0..<num_beacons example_parser]
       example_odometry_graph
     = Inl (ReferentialIntegrityError ''L1'')"
  by code_simp+

lemma example_range_measurements:
  "add_range_measurements False example_parser example_odometry_graph = Inr example_full_graph"
  "add_range_measurements True example_parser example_odometry_graph
     = Inl (ReferentialIntegrityError ''L1'')"
  using example_range_loop by (simp_all add: add_range_measurements_unfold)

lemma example_fill:
  "fill_factor_graph planar_kernel False example_parser (FactorGraphData_init 2)
     = Inr example_full_graph"
  "fill_factor_graph planar_kernel True example_parser (FactorGraphData_init 2)
     = Inl (ReferentialIntegrityError ''L1'')"
  by (simp_all add: fill_factor_graph_def example_beacon_variables example_pose_variables
        example_odometry_measurements example_range_measurements)

lemma turning_wf: "wf_dataframe (data turning_parser)"
  by code_simp

lemma turning_pose_variables:
  "add_pose_variables turning_parser example_landmarks_graph = Inr turning_poses_graph"
  by code_simp


section \<open>Pose admission\<close>

text \<open>
  C3, as the code has it. Row 0 is always admitted as a Pose Variable, and any other row
  is admitted if and only if at least one beacon of the beacon table, whether or not it
  was added as a Landmark Variable, has a reading other than NaN at that row: the names
  of the pose variables added by \<open>_add_pose_variables\<close> are the identifiers of exactly
  these rows, in order.
\<close>

theorem pose_admission:
  assumes "wf_dataframe (data p)" and "add_pose_variables p g = Inr g'"
  shows "map pose_var_name (pose_variables g') =
           map pose_var_name (pose_variables g)
           @ map pose_id
               (filter (\<lambda>row. row = 0
                          \<or> (\<exists>b<num_beacons p. \<exists>r. get_ranges p b = Inr r \<and> \<not> isnan (r ! row)))
                  [0..<nrows (data p)])"
proof -
  from add_pose_variables_Inr [OF assms] obtain ps rs where
    "g' = g\<lparr>pose_variables := pose_variables g
                  @ map (\<lambda>row. PoseVariable2D_init (pose_id row) (ps ! row) (rs ! row))
                      (filter (\<lambda>row. row = 0
                                 \<or> (\<exists>b<num_beacons p. \<exists>r. get_ranges p b = Inr r \<and> \<not> isnan (r ! row)))
                         [0..<nrows (data p)])\<rparr>"
    by blast
  then show ?thesis
    by (simp add: comp_def PoseVariable2D_init_def)
qed

theorem pose_admission_witness:
  "wf_dataframe (data example_parser)
   \<and> add_pose_variables example_parser example_landmarks_graph = Inr example_poses_graph
   \<and> map pose_var_name (pose_variables example_poses_graph) = [''A0'', ''A1'', ''A3'', ''A4'']"
  using pose_admission [OF example_wf example_pose_variables] example_wf example_pose_variables
  by (simp add: example_poses_graph_def example_landmarks_graph_def PoseVariable2D_init_def)

text \<open>
  C3, as the spec states it, fails. In the example only beacon 0 is added as a Landmark
  Variable, and its reading at row 3 is NaN; row 3 is admitted all the same, on the
  reading of beacon 1, which was not added.
\<close>

theorem pose_admitted_on_dropped_beacon:
  "add_beacon_variables example_parser (FactorGraphData_init 2) = Inr example_landmarks_graph
   \<and> map landmark_var_name (landmark_variables example_landmarks_graph) = [landmark_id 0]
   \<and> get_ranges example_parser 0 = Inr [Fin 1, Fin 200, NaN, NaN, PInf]
   \<and> isnan ([Fin 1, Fin 200, NaN, NaN, PInf] ! 3)
   \<and> add_pose_variables example_parser example_landmarks_graph = Inr example_poses_graph
   \<and> pose_id 3 \<in> set (map pose_var_name (pose_variables example_poses_graph))"
proof -
  have "get_ranges example_parser 0 = Inr [Fin 1, Fin 200, NaN, NaN, PInf]"
    by code_simp
  moreover have "map landmark_var_name (landmark_variables example_landmarks_graph) = [landmark_id 0]"
    by code_simp
  moreover have "pose_id 3 \<in> set (map pose_var_name (pose_variables example_poses_graph))"
    by code_simp
  ultimately show ?thesis
    using example_beacon_variables example_pose_variables by simp
qed


section \<open>Ground-truth orientation\<close>

text \<open>
  C10. \<open>gt_rotations\<close> returns what \<open>rotations\<close> returns; it depends on the table only
  through the yaw column \<open>insRPY_3\<close>, so no other orientation column is read; and the
  orientation stored in each Pose Variable that \<open>_add_pose_variables\<close> adds is the value
  of \<open>rotations\<close> at the row of that variable.
\<close>

theorem gt_rotations_are_rotations:
  "gt_rotations p = rotations p
   \<and> (dim p = dim q \<and> df_col (data p) ''insRPY_3'' = df_col (data q) ''insRPY_3''
        \<longrightarrow> gt_rotations p = gt_rotations q)
   \<and> (wf_dataframe (data p) \<and> add_pose_variables p g = Inr g' \<longrightarrow>
        (\<exists>rs. rotations p = Inr rs
           \<and> (\<forall>v \<in> set (drop (length (pose_variables g)) (pose_variables g')).
                 \<exists>row<nrows (data p). pose_var_name v = pose_id row \<and> pose_true_theta v = rs ! row)))"
proof (intro conjI impI)
  show "gt_rotations p = rotations p"
    by (simp add: gt_rotations_def)
  show "gt_rotations p = gt_rotations q"
    if "dim p = dim q \<and> df_col (data p) ''insRPY_3'' = df_col (data q) ''insRPY_3''"
    using that by (simp add: gt_rotations_def rotations_def)
  show "\<exists>rs. rotations p = Inr rs
           \<and> (\<forall>v \<in> set (drop (length (pose_variables g)) (pose_variables g')).
                 \<exists>row<nrows (data p). pose_var_name v = pose_id row \<and> pose_true_theta v = rs ! row)"
    if h: "wf_dataframe (data p) \<and> add_pose_variables p g = Inr g'"
  proof -
    from h add_pose_variables_Inr [of p g g'] obtain ps rs where rs: "rotations p = Inr rs"
      and g': "g' = g\<lparr>pose_variables := pose_variables g
                  @ map (\<lambda>row. PoseVariable2D_init (pose_id row) (ps ! row) (rs ! row))
                      (filter (\<lambda>row. row = 0
                                 \<or> (\<exists>b<num_beacons p. \<exists>r. get_ranges p b = Inr r \<and> \<not> isnan (r ! row)))
                         [0..<nrows (data p)])\<rparr>"
      by blast
    show ?thesis
      using rs unfolding g' by (auto simp: PoseVariable2D_init_def)
  qed
qed

theorem gt_rotations_are_rotations_witness:
  "gt_rotations turning_parser = Inr [Fin 0.1, Fin 0.2, Fin 0.3, Fin 0.4, Fin 0.5]
   \<and> rotations turning_parser = Inr [Fin 0.1, Fin 0.2, Fin 0.3, Fin 0.4, Fin 0.5]
   \<and> wf_dataframe (data turning_parser)
   \<and> add_pose_variables turning_parser example_landmarks_graph = Inr turning_poses_graph
   \<and> map pose_true_theta (pose_variables turning_poses_graph)
       = [Fin 0.1, Fin 0.2, Fin 0.4, Fin 0.5]"
proof -
  have "rotations turning_parser = Inr [Fin 0.1, Fin 0.2, Fin 0.3, Fin 0.4, Fin 0.5]"
    by code_simp
  moreover have "map pose_true_theta (pose_variables turning_poses_graph)
       = [Fin 0.1, Fin 0.2, Fin 0.4, Fin 0.5]"
    by (simp add: turning_poses_graph_def PoseVariable2D_init_def)
  ultimately show ?thesis
    using gt_rotations_are_rotations
            [of turning_parser turning_parser example_landmarks_graph turning_poses_graph]
          turning_wf turning_pose_variables
    by simp
qed

section \<open>Dropped beacons and range measurements\<close>

text \<open>
  \<open>_add_beacon_variables\<close> adds a landmark for exactly the beacons with at least \<open>dim\<close>
  readings other than NaN.
\<close>

lemma add_beacon_variables_loop_Inr:
  "add_beacon_variables_loop p rows g = Inr g' \<Longrightarrow>
     g' = g\<lparr>landmark_variables := landmark_variables g
            @ map (\<lambda>r. LandmarkVariable2D_init (landmark_id (fst r)) (snd r))
                (filter (\<lambda>r. \<exists>x. get_ranges p (fst r) = Inr x
                              \<and> dim p \<le> int (length (filter (\<lambda>v. \<not> isnan v) x))) rows)\<rparr>"
proof (induction rows arbitrary: g)
  case Nil
  then show ?case by simp
next
  case (Cons a rows)
  obtain idx beacon_loc where a: "a = (idx, beacon_loc)"
    by (cases a) auto
  from Cons.prems obtain x where x: "get_ranges p idx = Inr x"
    unfolding a by (auto split: sum.splits)
  show ?case
  proof (cases "int (length (filter (\<lambda>v. \<not> isnan v) x)) < dim p")
    case True
    with Cons.prems x have "add_beacon_variables_loop p rows g = Inr g'"
      unfolding a by (simp add: Let_def)
    from Cons.IH [OF this] True x show ?thesis
      unfolding a by auto
  next
    case False
    with Cons.prems x obtain g1 where
      g1: "add_landmark_variable g (LandmarkVariable2D_init (landmark_id idx) beacon_loc) = Inr g1"
      and rest: "add_beacon_variables_loop p rows g1 = Inr g'"
      unfolding a by (auto simp: Let_def split: sum.splits)
    from g1 have "g1 = g\<lparr>landmark_variables := landmark_variables g
                      @ [LandmarkVariable2D_init (landmark_id idx) beacon_loc]\<rparr>"
      by (auto simp: add_landmark_variable_def split: if_splits)
    with Cons.IH [OF rest] False x show ?thesis
      unfolding a by auto
  qed
qed

lemma sparse_beacon_not_added:
  assumes run: "add_beacon_variables p g = Inr g'"
    and b: "b < num_beacons p" and x: "get_ranges p b = Inr x"
    and sparse: "int (length (filter (\<lambda>v. \<not> isnan v) x)) < dim p"
    and old: "\<not> landmark_exists g (landmark_id b)"
  shows "\<not> landmark_exists g' (landmark_id b)"
proof -
  from run have "add_beacon_variables_loop p (enumerate 0 (beacon_locs p)) g = Inr g'"
    by (simp add: add_beacon_variables_def)
  from add_beacon_variables_loop_Inr [OF this] x sparse old show ?thesis
    by (auto simp: landmark_exists_def LandmarkVariable2D_init_def landmark_id_inj)
qed

text \<open>
  C1 at the example, \<open>dim = 2\<close>. Beacon 1 has a single reading, in row 3, and is not added
  as a Landmark Variable. \<open>_add_range_measurements\<close> runs over every beacon of the table
  all the same and builds the Range Measurement \<open>(A3, L1)\<close> for that reading. When the
  aggregate does not validate at addition, the filled graph holds this measurement,
  which names no landmark of the graph; when it validates, the run ends in a
  referential-integrity error.
\<close>

theorem dropped_beacon_range_measurement:
  "get_ranges example_parser 1 = Inr [NaN, NaN, NaN, Fin 8, NaN]
   \<and> add_beacon_variables example_parser (FactorGraphData_init 2) = Inr example_landmarks_graph
   \<and> landmark_id 1 \<notin> set (map landmark_var_name (landmark_variables example_landmarks_graph))
   \<and> fill_factor_graph planar_kernel False example_parser (FactorGraphData_init 2)
       = Inr example_full_graph
   \<and> landmark_id 1 \<notin> set (map landmark_var_name (landmark_variables example_full_graph))
   \<and> \<lparr>association = [pose_id 3, landmark_id 1], dist = Fin 8, stddev = 0.75\<rparr>
       \<in> set (range_measurements example_full_graph)
   \<and> fill_factor_graph planar_kernel True example_parser (FactorGraphData_init 2)
       = Inl (ReferentialIntegrityError (landmark_id 1))"
proof -
  have "get_ranges example_parser 1 = Inr [NaN, NaN, NaN, Fin 8, NaN]"
    by code_simp
  moreover have "landmark_id 1 \<notin> set (map landmark_var_name (landmark_variables example_landmarks_graph))"
    by code_simp
  moreover have "landmark_id 1 \<notin> set (map landmark_var_name (landmark_variables example_full_graph))"
    by code_simp
  moreover have "\<lparr>association = [pose_id 3, landmark_id 1], dist = Fin 8, stddev = 0.75\<rparr>
       \<in> set (range_measurements example_full_graph)"
    by code_simp
  moreover have "landmark_id 1 = ''L1''"
    by code_simp
  ultimately show ?thesis
    using example_beacon_variables example_fill by simp
qed

section \<open>Range derivation\<close>

lemma emit_range_measurement_Inr:
  "emit_range_measurement strict bn s i d g = Inr g' \<Longrightarrow>
     g' = g\<lparr>range_measurements := range_measurements g
            @ [\<lparr>association = [pose_id i, bn], dist = d, stddev = s\<rparr>]\<rparr>"
  by (auto simp: emit_range_measurement_def FGRangeMeasurement_init_def add_range_measurement_def
        Let_def
      split: sum.splits if_splits)

lemma add_range_measurements_beacon_Inr:
  "add_range_measurements_beacon strict bn s rows g = Inr g' \<Longrightarrow>
     g' = g\<lparr>range_measurements := range_measurements g
            @ map (\<lambda>r. \<lparr>association = [pose_id (fst r), bn], dist = snd r, stddev = s\<rparr>)
                (filter (\<lambda>r. \<not> isnan (snd r) \<and> \<not> isinf (snd r) \<and> isreal (snd r)) rows)\<rparr>"
proof (induction rows arbitrary: g)
  case Nil
  then show ?case by simp
next
  case (Cons a rows)
  obtain i d where a: "a = (i, d)" by (cases a) auto
  show ?case
  proof (cases "isnan d \<or> isinf d \<or> \<not> isreal d")
    case True
    with Cons.prems have "add_range_measurements_beacon strict bn s rows g = Inr g'"
      unfolding a by simp
    from Cons.IH [OF this] True show ?thesis
      unfolding a by auto
  next
    case False
    with Cons.prems obtain g1 where g1: "emit_range_measurement strict bn s i d g = Inr g1"
      and rest: "add_range_measurements_beacon strict bn s rows g1 = Inr g'"
      unfolding a by (auto split: sum.splits if_splits)
    from Cons.IH [OF rest] emit_range_measurement_Inr [OF g1] False show ?thesis
      unfolding a by auto
  qed
qed

lemma add_range_measurements_loop_Inr:
  "add_range_measurements_loop strict p s bs g = Inr g' \<Longrightarrow>
     (\<forall>b\<in>set bs. \<exists>r. get_ranges p b = Inr r)
     \<and> g' = g\<lparr>range_measurements := range_measurements g
              @ concat (map (\<lambda>b. map (\<lambda>r. \<lparr>association = [pose_id (fst r), landmark_id b],
                                             dist = snd r, stddev = s\<rparr>)
                                    (filter (\<lambda>r. \<not> isnan (snd r) \<and> \<not> isinf (snd r) \<and> isreal (snd r))
                                       (enumerate 0 (projr (get_ranges p b))))) bs)\<rparr>"
proof (induction bs arbitrary: g)
  case Nil
  then show ?case by simp
next
  case (Cons b bs)
  from Cons.prems obtain r g1 where r: "get_ranges p b = Inr r"
    and g1: "add_range_measurements_beacon strict (landmark_id b) s (enumerate 0 r) g = Inr g1"
    and rest: "add_range_measurements_loop strict p s bs g1 = Inr g'"
    by (auto split: sum.splits)
  from Cons.IH [OF rest] add_range_measurements_beacon_Inr [OF g1] r show ?case
    by auto
qed

text \<open>What \<open>_add_range_measurements\<close> appends to the range measurements of the graph.\<close>

lemma add_range_measurements_Inr:
  assumes "add_range_measurements strict p g = Inr g'"
  shows "(\<forall>b<num_beacons p. \<exists>r. get_ranges p b = Inr r)
     \<and> g' = g\<lparr>range_measurements := range_measurements g
              @ concat (map (\<lambda>b. map (\<lambda>r. \<lparr>association = [pose_id (fst r), landmark_id b],
                                             dist = snd r, stddev = 0.75\<rparr>)
                                    (filter (\<lambda>r. \<not> isnan (snd r) \<and> \<not> isinf (snd r) \<and> isreal (snd r))
                                       (enumerate 0 (projr (get_ranges p b)))))
                          [0..<num_beacons p])\<rparr>"
proof -
  from assms have "add_range_measurements_loop strict p 0.75 [0..<num_beacons p] g = Inr g'"
    by (simp add: add_range_measurements_def)
  from add_range_measurements_loop_Inr [OF this] show ?thesis
    by auto
qed

lemma new_range_measurements:
  assumes "add_range_measurements strict p g = Inr g'"
  shows "m \<in> set (drop (length (range_measurements g)) (range_measurements g')) \<longleftrightarrow>
           (\<exists>b r row. b < num_beacons p \<and> get_ranges p b = Inr r \<and> row < length r
              \<and> \<not> isnan (r ! row) \<and> \<not> isinf (r ! row) \<and> isreal (r ! row)
              \<and> m = \<lparr>association = [pose_id row, landmark_id b], dist = r ! row, stddev = 0.75\<rparr>)"
proof -
  from add_range_measurements_Inr [OF assms]
  have all: "\<forall>b<num_beacons p. \<exists>r. get_ranges p b = Inr r"
    and g': "g' = g\<lparr>range_measurements := range_measurements g
              @ concat (map (\<lambda>b. map (\<lambda>r. \<lparr>association = [pose_id (fst r), landmark_id b],
                                             dist = snd r, stddev = 0.75\<rparr>)
                                    (filter (\<lambda>r. \<not> isnan (snd r) \<and> \<not> isinf (snd r) \<and> isreal (snd r))
                                       (enumerate 0 (projr (get_ranges p b)))))
                          [0..<num_beacons p])\<rparr>"
    by blast+
  show ?thesis
  proof
    assume "m \<in> set (drop (length (range_measurements g)) (range_measurements g'))"
    then obtain b i d where b: "b < num_beacons p"
      and id: "(i, d) \<in> set (enumerate 0 (projr (get_ranges p b)))"
      and ok: "\<not> isnan d" "\<not> isinf d" "isreal d"
      and m: "m = \<lparr>association = [pose_id i, landmark_id b], dist = d, stddev = 0.75\<rparr>"
      unfolding g' by auto
    from all b obtain r where r: "get_ranges p b = Inr r" by blast
    from id r have "i < length r" "d = r ! i"
      by (auto simp: in_set_enumerate_eq)
    with b r ok m show "\<exists>b r row. b < num_beacons p \<and> get_ranges p b = Inr r \<and> row < length r
              \<and> \<not> isnan (r ! row) \<and> \<not> isinf (r ! row) \<and> isreal (r ! row)
              \<and> m = \<lparr>association = [pose_id row, landmark_id b], dist = r ! row, stddev = 0.75\<rparr>"
      by blast
  next
    assume "\<exists>b r row. b < num_beacons p \<and> get_ranges p b = Inr r \<and> row < length r
              \<and> \<not> isnan (r ! row) \<and> \<not> isinf (r ! row) \<and> isreal (r ! row)
              \<and> m = \<lparr>association = [pose_id row, landmark_id b], dist = r ! row, stddev = 0.75\<rparr>"
    then obtain b r row where b: "b < num_beacons p" and r: "get_ranges p b = Inr r"
      and row: "row < length r"
      and ok: "\<not> isnan (r ! row)" "\<not> isinf (r ! row)" "isreal (r ! row)"
      and m: "m = \<lparr>association = [pose_id row, landmark_id b], dist = r ! row, stddev = 0.75\<rparr>"
      by blast
    from row r have "(row, r ! row) \<in> set (enumerate 0 (projr (get_ranges p b)))"
      by (simp add: in_set_enumerate_eq)
    with b ok m show "m \<in> set (drop (length (range_measurements g)) (range_measurements g'))"
      unfolding g' by force
  qed
qed

text \<open>
  C7. In a run of \<open>_add_range_measurements\<close>, for every beacon of the table and every
  row: when the reading is NaN, infinite or not real, none of the Range Measurements
  added associates the pose of that row with the landmark of that beacon; otherwise
  the Range Measurement of that association with the reading as its distance is
  added, whether or not the reading lies within the physical bounds. The reading 1.0
  lies below the minimum 2.0 and is added.
\<close>

theorem range_exclusion:
  assumes "add_range_measurements strict p g = Inr g'"
    and "b < num_beacons p" and "get_ranges p b = Inr r" and "row < length r"
  shows "(isnan (r ! row) \<or> isinf (r ! row) \<or> \<not> isreal (r ! row) \<longrightarrow>
            (\<forall>m \<in> set (drop (length (range_measurements g)) (range_measurements g')).
               association m \<noteq> [pose_id row, landmark_id b]))
       \<and> (\<not> isnan (r ! row) \<and> \<not> isinf (r ! row) \<and> isreal (r ! row) \<longrightarrow>
            \<lparr>association = [pose_id row, landmark_id b], dist = r ! row, stddev = 0.75\<rparr>
              \<in> set (drop (length (range_measurements g)) (range_measurements g')))
       \<and> (r ! row = Fin 1 \<longrightarrow> out_of_bounds (r ! row) \<and>
            \<lparr>association = [pose_id row, landmark_id b], dist = Fin 1, stddev = 0.75\<rparr>
              \<in> set (drop (length (range_measurements g)) (range_measurements g')))"
proof (intro conjI impI ballI)
  fix m
  assume bad: "isnan (r ! row) \<or> isinf (r ! row) \<or> \<not> isreal (r ! row)"
    and m: "m \<in> set (drop (length (range_measurements g)) (range_measurements g'))"
  show "association m \<noteq> [pose_id row, landmark_id b]"
  proof
    assume a: "association m = [pose_id row, landmark_id b]"
    from m new_range_measurements [OF assms(1), of m] obtain b' r' row' where
      r': "get_ranges p b' = Inr r'"
      and ok: "\<not> isnan (r' ! row')" "\<not> isinf (r' ! row')" "isreal (r' ! row')"
      and m': "m = \<lparr>association = [pose_id row', landmark_id b'], dist = r' ! row', stddev = 0.75\<rparr>"
      by blast
    from a m' have "row' = row" "b' = b"
      by (simp_all add: pose_id_inj landmark_id_inj)
    with r' assms(3) ok bad show False by simp
  qed
next
  assume "\<not> isnan (r ! row) \<and> \<not> isinf (r ! row) \<and> isreal (r ! row)"
  with assms show "\<lparr>association = [pose_id row, landmark_id b], dist = r ! row, stddev = 0.75\<rparr>
              \<in> set (drop (length (range_measurements g)) (range_measurements g'))"
    unfolding new_range_measurements [OF assms(1)] by blast
next
  assume "r ! row = Fin 1"
  then show "out_of_bounds (r ! row)"
    by (simp add: out_of_bounds_def)
next
  assume one: "r ! row = Fin 1"
  then have "\<not> isnan (r ! row) \<and> \<not> isinf (r ! row) \<and> isreal (r ! row)" by simp
  with assms one show "\<lparr>association = [pose_id row, landmark_id b], dist = Fin 1, stddev = 0.75\<rparr>
              \<in> set (drop (length (range_measurements g)) (range_measurements g'))"
    unfolding new_range_measurements [OF assms(1)] by metis
qed

theorem range_exclusion_witness:
  "add_range_measurements False example_parser example_odometry_graph = Inr example_full_graph
   \<and> get_ranges example_parser 0 = Inr [Fin 1, Fin 200, NaN, NaN, PInf]
   \<and> \<lparr>association = [pose_id 0, landmark_id 0], dist = Fin 1, stddev = 0.75\<rparr>
       \<in> set (drop (length (range_measurements example_odometry_graph))
                (range_measurements example_full_graph))
   \<and> \<lparr>association = [pose_id 1, landmark_id 0], dist = Fin 200, stddev = 0.75\<rparr>
       \<in> set (drop (length (range_measurements example_odometry_graph))
                (range_measurements example_full_graph))
   \<and> [pose_id 2, landmark_id 0]
       \<notin> set (map association (drop (length (range_measurements example_odometry_graph))
                                 (range_measurements example_full_graph)))
   \<and> [pose_id 4, landmark_id 0]
       \<notin> set (map association (drop (length (range_measurements example_odometry_graph))
                                 (range_measurements example_full_graph)))"
proof -
  note run = example_range_measurements(1)
  have nb: "0 < num_beacons example_parser"
    by code_simp
  have r: "get_ranges example_parser 0 = Inr [Fin 1, Fin 200, NaN, NaN, PInf]"
    by code_simp
  from range_exclusion [OF run nb r, of 0]
  have "\<lparr>association = [pose_id 0, landmark_id 0], dist = Fin 1, stddev = 0.75\<rparr>
       \<in> set (drop (length (range_measurements example_odometry_graph))
                (range_measurements example_full_graph))"
    by simp
  moreover from range_exclusion [OF run nb r, of 1]
  have "\<lparr>association = [pose_id 1, landmark_id 0], dist = Fin 200, stddev = 0.75\<rparr>
       \<in> set (drop (length (range_measurements example_odometry_graph))
                (range_measurements example_full_graph))"
    by simp
  moreover from range_exclusion [OF run nb r, of 2]
  have "[pose_id 2, landmark_id 0]
       \<notin> set (map association (drop (length (range_measurements example_odometry_graph))
                                 (range_measurements example_full_graph)))"
    by auto
  moreover from range_exclusion [OF run nb r, of 4]
  have "[pose_id 4, landmark_id 0]
       \<notin> set (map association (drop (length (range_measurements example_odometry_graph))
                                 (range_measurements example_full_graph)))"
    by auto
  ultimately show ?thesis
    using run r by simp
qed

text \<open>
  C9. Every Range Measurement that a run of \<open>_add_range_measurements\<close> adds has the
  standard deviation 0.75 and so the weight 16/9, for every parser (whatever its
  \<open>filter_ranges\<close>), beacon and row: the value \<open>(1 / 10) ** 0.5\<close> that is assigned first
  is overwritten before the loop and reaches no measurement.
\<close>

theorem range_stddev_fixed:
  assumes "add_range_measurements strict p g = Inr g'"
    and "m \<in> set (drop (length (range_measurements g)) (range_measurements g'))"
  shows "stddev m = 0.75 \<and> weight m = Inr (16 / 9)"
proof -
  from assms new_range_measurements [OF assms(1), of m] have s: "stddev m = 3 / 4"
    by auto
  have "weight m = py_recip ((3 / 4)\<^sup>2)"
    unfolding weight_def s ..
  also have "\<dots> = Inr (16 / 9)"
    by (simp add: py_recip_def power2_eq_square)
  finally show ?thesis
    using s by simp
qed

theorem range_stddev_fixed_witness:
  "add_range_measurements False example_parser example_odometry_graph = Inr example_full_graph
   \<and> example_range ''A3'' ''L1'' (Fin 8)
       \<in> set (drop (length (range_measurements example_odometry_graph))
                (range_measurements example_full_graph))
   \<and> stddev (example_range ''A3'' ''L1'' (Fin 8)) = 0.75
   \<and> weight (example_range ''A3'' ''L1'' (Fin 8)) = Inr (16 / 9)"
proof -
  note run = example_range_measurements(1)
  have m: "example_range ''A3'' ''L1'' (Fin 8)
       \<in> set (drop (length (range_measurements example_odometry_graph))
                (range_measurements example_full_graph))"
    by (simp add: example_full_graph_def example_odometry_graph_def example_poses_graph_def
          example_landmarks_graph_def)
  from range_stddev_fixed [OF run m] run m show ?thesis
    by simp
qed

section \<open>Construction of the parser\<close>

lemma verify_path_is_goats_csv_cases:
  "verify_path_is_goats_csv q =
     (if \<not> path_exists q then Inl (ValueError (path_str q @ '' does not exist''))
      else if \<not> path_is_file q then Inl (ValueError (path_str q @ '' is not a file''))
      else if path_suffix q \<noteq> ''.csv'' then Inl (ValueError (path_str q @ '' is not a .csv file''))
      else Inr ())"
  by (simp add: verify_path_is_goats_csv_def)

text \<open>
  C8. The validator rejects exactly the paths that do not exist, are not a file or do
  not have the suffix \<open>.csv\<close>, with a ValueError that names the path and the reason.
  Construction of the parser ends in that error when the data path is rejected, and
  when the beacon path is; and when both tables are read and the number of beacons
  differs from the number of range columns or of filtered-range columns, it ends in
  an AssertionError that reports the three counts. In each case the result is the
  error alone, the same for every kernel and every policy of the aggregate: the graph
  is created and filled only after these checks.
\<close>

theorem structural_errors_first:
  "(isl (verify_path_is_goats_csv q) \<longleftrightarrow>
      (\<not> path_exists q \<or> \<not> path_is_file q \<or> path_suffix q \<noteq> ''.csv''))
   \<and> (verify_path_is_goats_csv q = Inl e \<longrightarrow>
        e = ValueError (path_str q @ '' does not exist'')
        \<or> e = ValueError (path_str q @ '' is not a file'')
        \<or> e = ValueError (path_str q @ '' is not a .csv file''))
   \<and> (verify_path_is_goats_csv dp = Inl e \<longrightarrow>
        GoatsParser_init K strict fs dp bp d filt = Inl e)
   \<and> (verify_path_is_goats_csv dp = Inr () \<and> verify_path_is_goats_csv bp = Inl e \<longrightarrow>
        GoatsParser_init K strict fs dp bp d filt = Inl e)
   \<and> (verify_path_is_goats_csv dp = Inr () \<and> verify_path_is_goats_csv bp = Inr ()
        \<and> read_csv fs dp = Inr df \<and> read_csv_headerless fs bp = Inr bl
        \<and> (length bl \<noteq> length (filter (\<lambda>c. startswith c ''ranges_'' \<and> \<not> contains c ''filtered'')
                                   (df_columns df))
           \<or> length bl \<noteq> length (filter (\<lambda>c. startswith c ''filtered_ranges_'') (df_columns df)))
        \<longrightarrow>
        GoatsParser_init K strict fs dp bp d filt
          = Inl (AssertionError
                  (''Number of beacon info is inconsistent. ''
                   @ string_of_nat (length (filter (\<lambda>c. startswith c ''ranges_'' \<and> \<not> contains c ''filtered'')
                                              (df_columns df)))
                   @ '' vs ''
                   @ string_of_nat (length (filter (\<lambda>c. startswith c ''filtered_ranges_'') (df_columns df)))
                   @ '' vs '' @ string_of_nat (length bl))))"
proof (intro conjI impI)
  show "isl (verify_path_is_goats_csv q) \<longleftrightarrow>
      (\<not> path_exists q \<or> \<not> path_is_file q \<or> path_suffix q \<noteq> ''.csv'')"
    by (simp add: verify_path_is_goats_csv_cases)
  show "e = ValueError (path_str q @ '' does not exist'')
        \<or> e = ValueError (path_str q @ '' is not a file'')
        \<or> e = ValueError (path_str q @ '' is not a .csv file'')"
    if "verify_path_is_goats_csv q = Inl e"
    using that by (auto simp: verify_path_is_goats_csv_cases split: if_splits)
  show "GoatsParser_init K strict fs dp bp d filt = Inl e"
    if "verify_path_is_goats_csv dp = Inl e"
    using that by (simp add: GoatsParser_init_def)
  show "GoatsParser_init K strict fs dp bp d filt = Inl e"
    if "verify_path_is_goats_csv dp = Inr () \<and> verify_path_is_goats_csv bp = Inl e"
    using that by (simp add: GoatsParser_init_def)
next
  let ?rc = "filter (\<lambda>c. startswith c ''ranges_'' \<and> \<not> contains c ''filtered'') (df_columns df)"
  let ?fc = "filter (\<lambda>c. startswith c ''filtered_ranges_'') (df_columns df)"
  let ?p = "\<lparr>data_file_path = dp, beacon_loc_file_path = bp, dim = d,
              filter_ranges = filt, data = df, beacon_locs = map (slice_to d) bl\<rparr>"
  assume h: "verify_path_is_goats_csv dp = Inr () \<and> verify_path_is_goats_csv bp = Inr ()
        \<and> read_csv fs dp = Inr df \<and> read_csv_headerless fs bp = Inr bl
        \<and> (length bl \<noteq> length ?rc \<or> length bl \<noteq> length ?fc)"
  then have "check_beacon_num_consistent ?p
      = Inl (AssertionError (''Number of beacon info is inconsistent. ''
                   @ string_of_nat (length ?rc) @ '' vs '' @ string_of_nat (length ?fc)
                   @ '' vs '' @ string_of_nat (length bl)))"
    by (auto simp: check_beacon_num_consistent_def Let_def)
  with h show "GoatsParser_init K strict fs dp bp d filt
          = Inl (AssertionError (''Number of beacon info is inconsistent. ''
                   @ string_of_nat (length ?rc) @ '' vs '' @ string_of_nat (length ?fc)
                   @ '' vs '' @ string_of_nat (length bl)))"
    by (simp add: GoatsParser_init_def Let_def)
qed

lemma example_paths:
  "verify_path_is_goats_csv (example_path s) = Inr ()"
  by (simp add: verify_path_is_goats_csv_def example_path_def)

lemma example_columns:
  "filter (\<lambda>c. startswith c ''ranges_'' \<and> \<not> contains c ''filtered'') (df_columns example_data)
     = [''ranges_1'', ''ranges_2'']"
  "filter (\<lambda>c. startswith c ''filtered_ranges_'') (df_columns example_data)
     = [''filtered_ranges_1'', ''filtered_ranges_2'']"
  by code_simp+

lemma string_of_nat_2_3:
  "string_of_nat 2 = ''2''" "string_of_nat (Suc (Suc 0)) = ''2''" "string_of_nat 3 = ''3''"
  by code_simp+

theorem structural_errors_first_witness:
  "GoatsParser_init planar_kernel True example_files
       ((example_path ''goats.txt'')\<lparr>path_suffix := ''.txt''\<rparr>) (example_path ''beacons.csv'') 2 False
     = Inl (ValueError ''goats.txt is not a .csv file'')
   \<and> GoatsParser_init planar_kernel True example_files
       (example_path ''goats.csv'') ((example_path ''beacons.csv'')\<lparr>path_exists := False\<rparr>) 2 False
     = Inl (ValueError ''beacons.csv does not exist'')
   \<and> GoatsParser_init planar_kernel True
       (example_files\<lparr>read_csv_headerless := (\<lambda>p. Inr three_beacons)\<rparr>)
       (example_path ''goats.csv'') (example_path ''beacons.csv'') 2 False
     = Inl (AssertionError ''Number of beacon info is inconsistent. 2 vs 2 vs 3'')"
proof -
  let ?bad = "(example_path ''goats.txt'')\<lparr>path_suffix := ''.txt''\<rparr>"
  let ?gone = "(example_path ''beacons.csv'')\<lparr>path_exists := False\<rparr>"
  let ?fs = "example_files\<lparr>read_csv_headerless := (\<lambda>p. Inr three_beacons)\<rparr>"
  have a: "verify_path_is_goats_csv ?bad = Inl (ValueError ''goats.txt is not a .csv file'')"
    by (simp add: verify_path_is_goats_csv_def example_path_def)
  have b: "verify_path_is_goats_csv ?gone = Inl (ValueError ''beacons.csv does not exist'')"
    by (simp add: verify_path_is_goats_csv_def example_path_def)
  have c: "read_csv ?fs (example_path ''goats.csv'') = Inr example_data"
    "read_csv_headerless ?fs (example_path ''beacons.csv'') = Inr three_beacons"
    by (simp_all add: example_files_def example_path_def)
  have l: "length three_beacons = 3"
    by (simp add: three_beacons_def)
  from structural_errors_first
         [of ?bad "ValueError ''goats.txt is not a .csv file''" ?bad planar_kernel True
             example_files "example_path ''beacons.csv''" 2 False] a
  have 1: "GoatsParser_init planar_kernel True example_files ?bad (example_path ''beacons.csv'') 2 False
     = Inl (ValueError ''goats.txt is not a .csv file'')"
    by simp
  from structural_errors_first
         [of ?gone "ValueError ''beacons.csv does not exist''" "example_path ''goats.csv''"
             planar_kernel True example_files ?gone 2 False] b example_paths
  have 2: "GoatsParser_init planar_kernel True example_files (example_path ''goats.csv'') ?gone 2 False
     = Inl (ValueError ''beacons.csv does not exist'')"
    by simp
  from structural_errors_first
         [of ?gone "ValueError ''beacons.csv does not exist''" "example_path ''goats.csv''"
             planar_kernel True ?fs "example_path ''beacons.csv''" 2 False example_data three_beacons]
       example_paths c
  have 3: "GoatsParser_init planar_kernel True ?fs
       (example_path ''goats.csv'') (example_path ''beacons.csv'') 2 False
     = Inl (AssertionError ''Number of beacon info is inconsistent. 2 vs 2 vs 3'')"
    by (simp add: example_columns l string_of_nat_2_3)
  from 1 2 3 show ?thesis by simp
qed

lemma example_construction:
  "GoatsParser_init planar_kernel False example_files
       (example_path ''goats.csv'') (example_path ''beacons.csv'') 2 False
     = Inr (example_parser, example_full_graph)"
proof -
  have c: "check_beacon_num_consistent example_parser = Inr ()"
    by code_simp
  have "map (slice_to 2) example_beacons = example_beacons"
    by code_simp
  then have p: "\<lparr>data_file_path = example_path ''goats.csv'',
                beacon_loc_file_path = example_path ''beacons.csv'', dim = 2,
                filter_ranges = False, data = example_data,
                beacon_locs = map (slice_to 2) example_beacons\<rparr> = example_parser"
    by (simp add: example_parser_def)
  have r: "read_csv example_files (example_path ''goats.csv'') = Inr example_data"
    "read_csv_headerless example_files (example_path ''beacons.csv'') = Inr example_beacons"
    by (simp_all add: example_files_def example_path_def)
  show ?thesis
    by (simp add: GoatsParser_init_def example_paths r p c example_fill)
qed

section \<open>Odometry derivation\<close>

lemma relative_pose_measurement_Inr:
  "relative_pose_measurement K prev_pose curr_pose b t = Inr m \<Longrightarrow>
     pm_base_pose m = b \<and> pm_to_pose m = t"
  by (auto simp: relative_pose_measurement_def PoseMeasurement2D_init_def Let_def
      split: prod.splits list.splits sum.splits if_splits)

lemma add_odom_measurement_Inr:
  "add_odom_measurement strict g m = Inr g' \<Longrightarrow>
     g' = g\<lparr>odom_measurements := odom_measurements g @ [m]\<rparr>"
  by (auto simp: add_odom_measurement_def split: if_splits)

lemma add_odometry_measurements_loop_Inr:
  "add_odometry_measurements_loop K strict p rows prev_pose b g = Inr g' \<Longrightarrow>
     (\<forall>r\<in>set rows. \<exists>h. row_has_range_measures p (fst r) = Inr h)
     \<and> map (\<lambda>m. (pm_base_pose m, pm_to_pose m)) (odom_measurements g')
         = map (\<lambda>m. (pm_base_pose m, pm_to_pose m)) (odom_measurements g)
           @ zip (b # map (\<lambda>r. pose_id (fst r))
                        (filter (\<lambda>r. fst r \<noteq> 0 \<and> row_has_range_measures p (fst r) = Inr True) rows))
                 (map (\<lambda>r. pose_id (fst r))
                    (filter (\<lambda>r. fst r \<noteq> 0 \<and> row_has_range_measures p (fst r) = Inr True) rows))"
proof (induction rows arbitrary: prev_pose b g)
  case Nil
  then show ?case by simp
next
  case (Cons a rows)
  obtain idx position rot where a: "a = (idx, position, rot)"
    by (cases a) auto
  from Cons.prems obtain has where has: "row_has_range_measures p idx = Inr has"
    unfolding a by (auto split: sum.splits)
  show ?case
  proof (cases "has \<and> idx \<noteq> 0")
    case False
    with Cons.prems has have
      "add_odometry_measurements_loop K strict p rows prev_pose b g = Inr g'"
      unfolding a by (auto split: sum.splits if_splits)
    from Cons.IH [OF this] False has show ?thesis
      unfolding a by auto
  next
    case True
    with Cons.prems has obtain curr_pose m g1 where
      m: "relative_pose_measurement K prev_pose curr_pose b (pose_id idx) = Inr m"
      and g1: "add_odom_measurement strict g m = Inr g1"
      and rest: "add_odometry_measurements_loop K strict p rows curr_pose (pose_id idx) g1 = Inr g'"
      unfolding a by (auto simp: Let_def split: sum.splits if_splits)
    from Cons.IH [OF rest] relative_pose_measurement_Inr [OF m] add_odom_measurement_Inr [OF g1]
      True has
    show ?thesis
      unfolding a by auto
  qed
qed

lemma filter_upt_from_zero:
  assumes "0 < n"
  shows "filter (\<lambda>row. row = 0 \<or> P row) [0..<n] = 0 # filter (\<lambda>row. row \<noteq> 0 \<and> P row) [0..<n]"
proof -
  have "[0..<n] = 0 # [Suc 0..<n]"
    using assms by (simp add: upt_conv_Cons)
  moreover have "filter (\<lambda>row. row = 0 \<or> P row) [Suc 0..<n]
      = filter (\<lambda>row. row \<noteq> 0 \<and> P row) [Suc 0..<n]"
    by (rule filter_cong) auto
  ultimately show ?thesis by simp
qed

text \<open>The odometry chain over the rows with range coverage, in terms of the readings.\<close>

lemma add_odometry_measurements_Inr:
  assumes wf: "wf_dataframe (data p)"
    and run: "add_odometry_measurements K strict p g = Inr g'"
  shows "0 < nrows (data p)
     \<and> map (\<lambda>m. (pm_base_pose m, pm_to_pose m)) (odom_measurements g')
         = map (\<lambda>m. (pm_base_pose m, pm_to_pose m)) (odom_measurements g)
           @ zip (pose_id 0 # map pose_id
                    (filter (\<lambda>row. row \<noteq> 0
                               \<and> (\<exists>b<num_beacons p. \<exists>r. get_ranges p b = Inr r \<and> \<not> isnan (r ! row)))
                       [0..<nrows (data p)]))
                 (map pose_id
                    (filter (\<lambda>row. row \<noteq> 0
                               \<and> (\<exists>b<num_beacons p. \<exists>r. get_ranges p b = Inr r \<and> \<not> isnan (r ! row)))
                       [0..<nrows (data p)]))"
proof -
  let ?n = "nrows (data p)"
  from run obtain ps rs prev_pose where ps: "positions p = Inr ps" and rs: "rotations p = Inr rs"
    and first: "0 < length ps"
    and loop: "add_odometry_measurements_loop K strict p (enumerate 0 (zip ps rs)) prev_pose ''A0'' g
                 = Inr g'"
    by (auto simp: add_odometry_measurements_def np_index_def split: sum.splits if_splits)
  have lps: "length ps = ?n"
    using ps by (auto simp: positions_def dest: df_rows_length)
  have lrs: "length rs = ?n"
    using rotations_Inr [OF rs] wf by (auto dest: df_col_length)
  let ?Q = "\<lambda>row. row \<noteq> 0 \<and> row_has_range_measures p row = Inr True"
  let ?R = "\<lambda>row. row \<noteq> 0
              \<and> (\<exists>b<num_beacons p. \<exists>r. get_ranges p b = Inr r \<and> \<not> isnan (r ! row))"
  have rows: "enumerate 0 (zip ps rs) = map (\<lambda>i. (i, ps ! i, rs ! i)) [0..<?n]"
    using lps lrs by (simp add: enumerate_map_nth)
  from add_odometry_measurements_loop_Inr [OF loop]
  have all: "\<forall>r\<in>set (enumerate 0 (zip ps rs)). \<exists>h. row_has_range_measures p (fst r) = Inr h"
    and chain: "map (\<lambda>m. (pm_base_pose m, pm_to_pose m)) (odom_measurements g')
         = map (\<lambda>m. (pm_base_pose m, pm_to_pose m)) (odom_measurements g)
           @ zip (''A0'' # map (\<lambda>r. pose_id (fst r))
                        (filter (\<lambda>r. ?Q (fst r)) (enumerate 0 (zip ps rs))))
                 (map (\<lambda>r. pose_id (fst r))
                    (filter (\<lambda>r. ?Q (fst r)) (enumerate 0 (zip ps rs))))"
    by blast+
  have ok: "\<exists>h. row_has_range_measures p row = Inr h" if "row < ?n" for row
    using all that unfolding rows by auto
  have QR: "?Q row \<longleftrightarrow> ?R row" if "row < ?n" for row
  proof -
    from ok [OF that] obtain h where h: "row_has_range_measures p row = Inr h" by blast
    from row_has_range_measures_Inr [OF h] h show ?thesis by auto
  qed
  have "filter ?Q [0..<?n] = filter ?R [0..<?n]"
  proof (rule filter_cong)
    fix row
    assume "row \<in> set [0..<?n]"
    then have "row < ?n" by simp
    from QR [OF this] show "?Q row = ?R row" .
  qed simp
  moreover have "map (\<lambda>r. pose_id (fst r)) (filter (\<lambda>r. ?Q (fst r)) (enumerate 0 (zip ps rs)))
        = map pose_id (filter ?Q [0..<?n])"
    unfolding rows by (simp add: filter_map comp_def)
  moreover have "pose_id 0 = ''A0''"
    by (simp add: pose_id_values)
  ultimately show ?thesis
    using chain first lps by simp
qed

lemma pose_admission_rows:
  assumes "wf_dataframe (data p)" and "add_pose_variables p g = Inr g'"
  shows "map pose_var_name (pose_variables g') =
           map pose_var_name (pose_variables g)
           @ map pose_id
               (filter (\<lambda>row. row = 0
                          \<or> (\<exists>b<num_beacons p. \<exists>r. get_ranges p b = Inr r \<and> \<not> isnan (r ! row)))
                  [0..<nrows (data p)])"
    and "odom_measurements g' = odom_measurements g"
proof -
  from add_pose_variables_Inr [OF assms] obtain ps rs where
    g': "g' = g\<lparr>pose_variables := pose_variables g
                  @ map (\<lambda>row. PoseVariable2D_init (pose_id row) (ps ! row) (rs ! row))
                      (filter (\<lambda>row. row = 0
                                 \<or> (\<exists>b<num_beacons p. \<exists>r. get_ranges p b = Inr r \<and> \<not> isnan (r ! row)))
                         [0..<nrows (data p)])\<rparr>"
    by blast
  show "map pose_var_name (pose_variables g') =
           map pose_var_name (pose_variables g)
           @ map pose_id
               (filter (\<lambda>row. row = 0
                          \<or> (\<exists>b<num_beacons p. \<exists>r. get_ranges p b = Inr r \<and> \<not> isnan (r ! row)))
                  [0..<nrows (data p)])"
    unfolding g' by (simp add: comp_def PoseVariable2D_init_def)
  show "odom_measurements g' = odom_measurements g"
    unfolding g' by simp
qed

text \<open>
  C5. In a run that adds the pose variables to a graph without poses and odometry and
  then derives the odometry, the pairs (\<open>base_pose\<close>, \<open>to_pose\<close>) of the odometry
  measurements are the pairs of consecutive admitted poses, in order: each base is the
  pose admitted before, whatever rows lie between. When the table has five rows, every
  beacon's reading at row 2 is NaN and each other row has a reading that is not NaN,
  the admitted poses are \<open>A0\<close>, \<open>A1\<close>, \<open>A3\<close>, \<open>A4\<close> and the chain is
  \<open>(A0, A1)\<close>, \<open>(A1, A3)\<close>, \<open>(A3, A4)\<close>.
\<close>

theorem odometry_chain:
  assumes wf: "wf_dataframe (data p)"
    and fresh: "pose_variables g = []" "odom_measurements g = []"
    and poses: "add_pose_variables p g = Inr g1"
    and odom: "add_odometry_measurements K strict p g1 = Inr g2"
  shows "map (\<lambda>m. (pm_base_pose m, pm_to_pose m)) (odom_measurements g2)
           = zip (map pose_var_name (pose_variables g1)) (tl (map pose_var_name (pose_variables g1)))
     \<and> (nrows (data p) = 5
          \<and> (\<forall>b<num_beacons p. \<forall>r. get_ranges p b = Inr r \<longrightarrow> isnan (r ! 2))
          \<and> (\<forall>row\<in>{0, 1, 3, 4}. \<exists>b<num_beacons p. \<exists>r. get_ranges p b = Inr r \<and> \<not> isnan (r ! row))
        \<longrightarrow> map pose_var_name (pose_variables g1) = [''A0'', ''A1'', ''A3'', ''A4'']
          \<and> map (\<lambda>m. (pm_base_pose m, pm_to_pose m)) (odom_measurements g2)
              = [(''A0'', ''A1''), (''A1'', ''A3''), (''A3'', ''A4'')])"
proof -
  let ?n = "nrows (data p)"
  let ?C = "\<lambda>row. \<exists>b<num_beacons p. \<exists>r. get_ranges p b = Inr r \<and> \<not> isnan (r ! row)"
  let ?ns = "map pose_id (filter (\<lambda>row. row \<noteq> 0 \<and> ?C row) [0..<?n])"
  from pose_admission_rows [OF wf poses] fresh
  have names: "map pose_var_name (pose_variables g1)
                 = map pose_id (filter (\<lambda>row. row = 0 \<or> ?C row) [0..<?n])"
    and same: "odom_measurements g1 = odom_measurements g"
    by simp_all
  from add_odometry_measurements_Inr [OF wf odom] same fresh
  have pos: "0 < ?n"
    and chain: "map (\<lambda>m. (pm_base_pose m, pm_to_pose m)) (odom_measurements g2)
                  = zip (pose_id 0 # ?ns) ?ns"
    by simp_all
  from names filter_upt_from_zero [OF pos, of ?C]
  have names': "map pose_var_name (pose_variables g1) = pose_id 0 # ?ns"
    by simp
  have main: "map (\<lambda>m. (pm_base_pose m, pm_to_pose m)) (odom_measurements g2)
           = zip (map pose_var_name (pose_variables g1)) (tl (map pose_var_name (pose_variables g1)))"
    unfolding names' chain by simp
  have scen: "map pose_var_name (pose_variables g1) = [''A0'', ''A1'', ''A3'', ''A4'']"
    if h: "?n = 5 \<and> (\<forall>b<num_beacons p. \<forall>r. get_ranges p b = Inr r \<longrightarrow> isnan (r ! 2))
          \<and> (\<forall>row\<in>{0, 1, 3, 4}. ?C row)"
  proof -
    have five: "[0..<5] = [0, 1, 2, 3, 4::nat]"
      by code_simp
    have one: "pose_id (Suc 0) = ''A1''"
      by code_simp
    from h have "\<not> ?C 2" by blast
    moreover from h have "?C 1" "?C 3" "?C 4" by blast+
    ultimately have "filter (\<lambda>row. row = 0 \<or> ?C row) [0, 1, 2, 3, 4] = [0, 1, 3, 4]"
      by simp
    with names h five one show ?thesis
      by (simp add: pose_id_values)
  qed
  from main scen show ?thesis
    by simp
qed

theorem odometry_chain_witness:
  "wf_dataframe (data example_parser)
   \<and> add_pose_variables example_parser example_landmarks_graph = Inr example_poses_graph
   \<and> add_odometry_measurements planar_kernel True example_parser example_poses_graph
       = Inr example_odometry_graph
   \<and> map pose_var_name (pose_variables example_poses_graph) = [''A0'', ''A1'', ''A3'', ''A4'']
   \<and> map (\<lambda>m. (pm_base_pose m, pm_to_pose m)) (odom_measurements example_odometry_graph)
       = [(''A0'', ''A1''), (''A1'', ''A3''), (''A3'', ''A4'')]"
proof -
  have fresh: "pose_variables example_landmarks_graph = []"
    "odom_measurements example_landmarks_graph = []"
    by (simp_all add: example_landmarks_graph_def)
  have n: "nrows (data example_parser) = 5"
    by code_simp
  have nb: "num_beacons example_parser = 2"
    by code_simp
  have r0: "get_ranges example_parser 0 = Inr [Fin 1, Fin 200, NaN, NaN, PInf]"
    and r1: "get_ranges example_parser 1 = Inr [NaN, NaN, NaN, Fin 8, NaN]"
    by code_simp+
  have missing: "\<forall>b<num_beacons example_parser. \<forall>r. get_ranges example_parser b = Inr r
                   \<longrightarrow> isnan (r ! 2)"
  proof (intro allI impI)
    fix b r
    assume "b < num_beacons example_parser" and r: "get_ranges example_parser b = Inr r"
    then have "b = 0 \<or> b = 1" unfolding nb by auto
    with r r0 r1 show "isnan (r ! 2)" by auto
  qed
  have covered: "\<forall>row\<in>{0, 1, 3, 4}. \<exists>b<num_beacons example_parser. \<exists>r.
                    get_ranges example_parser b = Inr r \<and> \<not> isnan (r ! row)"
  proof -
    have "\<exists>b<num_beacons example_parser. \<exists>r. get_ranges example_parser b = Inr r \<and> \<not> isnan (r ! 0)"
      unfolding nb using r0 by (intro exI [of _ 0]) simp
    moreover have "\<exists>b<num_beacons example_parser. \<exists>r. get_ranges example_parser b = Inr r \<and> \<not> isnan (r ! 1)"
      unfolding nb using r0 by (intro exI [of _ 0]) simp
    moreover have "\<exists>b<num_beacons example_parser. \<exists>r. get_ranges example_parser b = Inr r \<and> \<not> isnan (r ! 3)"
      unfolding nb using r1 by (intro exI [of _ 1]) simp
    moreover have "\<exists>b<num_beacons example_parser. \<exists>r. get_ranges example_parser b = Inr r \<and> \<not> isnan (r ! 4)"
      unfolding nb using r0 by (intro exI [of _ 0]) simp
    ultimately show ?thesis by simp
  qed
  from odometry_chain [OF example_wf fresh example_pose_variables
         example_odometry_measurements [of True]] n missing covered
  have "map pose_var_name (pose_variables example_poses_graph) = [''A0'', ''A1'', ''A3'', ''A4'']
     \<and> map (\<lambda>m. (pm_base_pose m, pm_to_pose m)) (odom_measurements example_odometry_graph)
         = [(''A0'', ''A1''), (''A1'', ''A3''), (''A3'', ''A4'')]"
    by blast
  with example_wf example_pose_variables example_odometry_measurements [of True]
  show ?thesis by simp
qed

end
